theory Spec2Isabelle
  imports Main "HOL-Library.Sublist"
begin

section \<open>Strings of the source language\<close>

text \<open>
  A string of the source is a sequence of UTF-16 code units; \<open>length\<close>, \<open>substring\<close>,
  \<open>includes\<close> and the regular expressions of the source (none has the \<open>u\<close> flag) all
  count and compare code units. A code unit is modelled as a natural number (every
  unit is below \<open>65536\<close>; the theorems below hold for all lists of naturals, so in
  particular for all strings). \<open>str\<close> turns an ASCII literal into its code units.
\<close>

type_synonym jsstring = "nat list"

definition str :: "string \<Rightarrow> jsstring" where
  "str s = map of_char s"

text \<open>
  \<open>String.prototype.toLowerCase\<close> is a primitive of the language. Its results inside
  ASCII are written out: \<open>A\<close>..\<open>Z\<close> go to \<open>a\<close>..\<open>z\<close>, U+212A (Kelvin sign) goes to
  \<open>k\<close>, and U+0130 goes to \<open>i\<close> followed by U+0307. Every other code unit is kept as it
  is: its lower-case form, where it has one, is again outside ASCII, and the functions
  below only compare lowered text with ASCII keywords and ASCII character classes.
\<close>

definition toLowerCaseUnit :: "nat \<Rightarrow> jsstring" where
  "toLowerCaseUnit c =
     (if 65 \<le> c \<and> c \<le> 90 then [c + 32]
      else if c = 304 then [105, 775]
      else if c = 8490 then [107]
      else [c])"

definition toLowerCase :: "jsstring \<Rightarrow> jsstring" where
  "toLowerCase s = concat (map toLowerCaseUnit s)"

text \<open>\<open>s.substring(0, n)\<close>: the first \<open>n\<close> code units, the whole string when it is shorter.\<close>

definition substring0 :: "jsstring \<Rightarrow> nat \<Rightarrow> jsstring" where
  "substring0 s n = take n s"

text \<open>\<open>s.includes(k)\<close>: \<open>k\<close> occurs in \<open>s\<close> as a contiguous run.\<close>

fun includesStr :: "jsstring \<Rightarrow> jsstring \<Rightarrow> bool" where
  "includesStr [] k = (k = [])"
| "includesStr (c # cs) k = (prefix k (c # cs) \<or> includesStr cs k)"

text \<open>\<open>xs.join(sep)\<close>.\<close>

fun join :: "jsstring list \<Rightarrow> jsstring \<Rightarrow> jsstring" where
  "join [] sep = []"
| "join [x] sep = x"
| "join (x # y # ys) sep = x @ sep @ join (y # ys) sep"

text \<open>
  The character class \<open>\s\<close> of the language: tab, line feed, vertical tab, form feed,
  carriage return, space, no-break space, U+1680, U+2000..U+200A, U+2028, U+2029,
  U+202F, U+205F, U+3000 and U+FEFF.
\<close>

definition isWhiteSpace :: "nat \<Rightarrow> bool" where
  "isWhiteSpace c =
     (c = 9 \<or> c = 10 \<or> c = 11 \<or> c = 12 \<or> c = 13 \<or> c = 32 \<or> c = 160 \<or> c = 5760
      \<or> (8192 \<le> c \<and> c \<le> 8202) \<or> c = 8232 \<or> c = 8233 \<or> c = 8239 \<or> c = 8287
      \<or> c = 12288 \<or> c = 65279)"

text \<open>The class \<open>[a-z0-9-]\<close>.\<close>

definition isSlugChar :: "nat \<Rightarrow> bool" where
  "isSlugChar c = ((97 \<le> c \<and> c \<le> 122) \<or> (48 \<le> c \<and> c \<le> 57) \<or> c = 45)"

text \<open>\<open>s.replace(/[^a-z0-9\s-]/g, '')\<close>: every code unit outside the class is deleted.\<close>

definition removeSpecial :: "jsstring \<Rightarrow> jsstring" where
  "removeSpecial s = filter (\<lambda>c. isSlugChar c \<or> isWhiteSpace c) s"

text \<open>\<open>s.replace(/\s+/g, '-')\<close>: every maximal run of white space becomes one hyphen.\<close>

function replaceWhiteSpaceRuns :: "jsstring \<Rightarrow> jsstring" where
  "replaceWhiteSpaceRuns [] = []"
| "replaceWhiteSpaceRuns (c # cs) =
     (if isWhiteSpace c then 45 # replaceWhiteSpaceRuns (dropWhile isWhiteSpace cs)
      else c # replaceWhiteSpaceRuns cs)"
  by pat_completeness auto
termination
  by (relation "measure length") (auto simp: less_Suc_eq_le length_dropWhile_le)

section \<open>Branch descriptor\<close>

datatype BranchNamingStrategy = Fix | Feat | Refactor | Chore

text \<open>The text of a strategy, as a template literal prints it.\<close>

fun strategyText :: "BranchNamingStrategy \<Rightarrow> jsstring" where
  "strategyText Fix = str ''fix''"
| "strategyText Feat = str ''feat''"
| "strategyText Refactor = str ''refactor''"
| "strategyText Chore = str ''chore''"

text \<open>
  \<open>BranchOptions\<close>. Field names carry the prefix \<open>opt_\<close> (as the fields of the other
  interfaces below carry one of their own), since several interfaces of the source
  share the names \<open>success\<close>, \<open>error\<close> and \<open>description\<close>.
\<close>

record BranchOptions =
  opt_type :: BranchNamingStrategy
  opt_description :: jsstring
  opt_baseBranch :: "jsstring option"

definition determineBranchType :: "jsstring \<Rightarrow> BranchNamingStrategy" where
  "determineBranchType text =
     (let lowerText = toLowerCase text in
      if includesStr lowerText (str ''bug'') \<or> includesStr lowerText (str ''fix'')
         \<or> includesStr lowerText (str ''error'') then Fix
      else if includesStr lowerText (str ''feature'') \<or> includesStr lowerText (str ''add'')
         \<or> includesStr lowerText (str ''implement'') then Feat
      else if includesStr lowerText (str ''refactor'') \<or> includesStr lowerText (str ''improve'')
         \<or> includesStr lowerText (str ''optimize'') then Refactor
      else Chore)"

definition generateBranchName :: "BranchOptions \<Rightarrow> jsstring" where
  "generateBranchName options =
     (let prefix = strategyText (opt_type options);
          sanitized =
            substring0
              (replaceWhiteSpaceRuns (removeSpecial (toLowerCase (opt_description options))))
              50
      in prefix @ str ''/'' @ sanitized)"

text \<open>
  The options \<open>processIssue\<close> builds from the issue text, and the branch name
  \<open>createBranch\<close> derives from them.
\<close>

definition branchOptionsOf :: "jsstring \<Rightarrow> BranchOptions" where
  "branchOptionsOf text =
     \<lparr>opt_type = determineBranchType text,
      opt_description = substring0 text 50,
      opt_baseBranch = None\<rparr>"

definition derivedBranchName :: "jsstring \<Rightarrow> jsstring" where
  "derivedBranchName text = generateBranchName (branchOptionsOf text)"

text \<open>The slug of the derived branch name: what follows the slash.\<close>

definition slugOf :: "jsstring \<Rightarrow> jsstring" where
  "slugOf text = take 50 (replaceWhiteSpaceRuns (removeSpecial (toLowerCase (take 50 text))))"

text \<open>
  The pattern \<open>^(fix|feat|refactor|chore)/[a-z0-9-]{lo,hi}$\<close> of the specification, with
  the two bounds of the slug as parameters.
\<close>

definition branchPattern :: "nat \<Rightarrow> nat \<Rightarrow> jsstring \<Rightarrow> bool" where
  "branchPattern lo hi s =
     list_ex
       (\<lambda>p. prefix (p @ str ''/'') s \<and>
            (let slug = drop (length p + 1) s
             in lo \<le> length slug \<and> length slug \<le> hi \<and> list_all isSlugChar slug))
       [str ''fix'', str ''feat'', str ''refactor'', str ''chore'']"

section \<open>Generated texts\<close>

text \<open>
  The three prefixes of a pull-request title start with U+1F41B, U+2728 and
  U+267B U+FE0F; the commit message starts with U+1F916.
\<close>

definition generatePRTitle :: "jsstring \<Rightarrow> jsstring \<Rightarrow> jsstring" where
  "generatePRTitle issueText type =
     (let prefix =
            (if type = str ''fix'' then [55357, 56347] @ str '' Fix:''
             else if type = str ''feat'' then [10024] @ str '' Feature:''
             else [9851, 65039] @ str '' Refactor:'');
          title = substring0 issueText 70
      in prefix @ str '' '' @ title @ (if length issueText > 70 then str ''...'' else []))"

definition generateCommitMessage :: "jsstring \<Rightarrow> jsstring \<Rightarrow> jsstring list \<Rightarrow> jsstring" where
  "generateCommitMessage issueText solution filesChanged =
     (let preview = substring0 issueText 50 @ (if length issueText > 50 then str ''...'' else [])
      in [55358, 56598] @ str '' Auto-fix: '' @ preview @ [10, 10]
         @ solution @ [10, 10]
         @ str ''Files changed:'' @ [10]
         @ join (map (\<lambda>f. str ''- '' @ f) filesChanged) [10] @ [10, 10]
         @ str ''---'' @ [10]
         @ [55358, 56598] @ str '' Generated by Claude AutoFix Bot'' @ [10]
         @ str ''Co-authored-by: Claude <noreply@anthropic.com>'')"

section \<open>Truthiness\<close>

text \<open>
  An optional string field is \<open>undefined\<close> (\<open>None\<close>) or a string. A test such as
  \<open>if (!r.ts)\<close> fails for \<open>undefined\<close> and for the empty string; \<open>truthy\<close> gives the
  string of a field that passes the test. \<open>orElse x d\<close> is \<open>x || d\<close>.
\<close>

definition truthy :: "jsstring option \<Rightarrow> jsstring option" where
  "truthy x = (case x of None \<Rightarrow> None | Some v \<Rightarrow> if v = [] then None else Some v)"

definition orElse :: "jsstring option \<Rightarrow> jsstring \<Rightarrow> jsstring" where
  "orElse x d = (case truthy x of None \<Rightarrow> d | Some v \<Rightarrow> v)"

section \<open>Interfaces\<close>

record CodeFix =
  fix_path :: jsstring
  fix_description :: jsstring
  fix_newContent :: "jsstring option"
  fix_originalContent :: "jsstring option"

record FixResult =
  fr_success :: bool
  fr_analysis :: jsstring
  fr_solution :: jsstring
  fr_filesChanged :: "jsstring list"
  fr_fixes :: "CodeFix list"
  fr_error :: "jsstring option"

record GitBranchResult =
  br_success :: bool
  br_branchName :: "jsstring option"
  br_error :: "jsstring option"

record GitCommitResult =
  cr_success :: bool
  cr_hash :: "jsstring option"
  cr_branch :: "jsstring option"
  cr_error :: "jsstring option"

record GitHubPRResult =
  pr_success :: bool
  pr_prNumber :: "nat option"
  pr_prUrl :: "jsstring option"
  pr_error :: "jsstring option"

datatype DeploymentStatus = READY | ERROR | BUILDING | QUEUED | CANCELED

record DeploymentResult =
  dr_success :: bool
  dr_url :: "jsstring option"
  dr_deploymentId :: "jsstring option"
  dr_status :: "DeploymentStatus option"
  dr_error :: "jsstring option"

record IssueJob =
  job_id :: jsstring
  job_text :: jsstring
  job_channel :: jsstring
  job_threadTs :: jsstring
  job_userId :: jsstring
  job_timestamp :: nat
  job_retryCount :: "nat option"

datatype JobStatus = Pending | Processing | Completed | Failed

record JobResult =
  jr_jobId :: jsstring
  jr_status :: JobStatus
  jr_branchName :: "jsstring option"
  jr_prUrl :: "jsstring option"
  jr_previewUrl :: "jsstring option"
  jr_result :: "FixResult option"
  jr_deployment :: "DeploymentResult option"
  jr_error :: "jsstring option"

section \<open>The outside world\<close>

text \<open>
  The status texts of \<open>processIssue\<close> are fixed templates. Each template is a
  constructor that carries the values the template interpolates, in the order of
  their first occurrence; an optional value is interpolated as it is.
\<close>

datatype statusText =
    Analyzing
  | Cloning
  | RunningAgent
  | AnalysisFailed jsstring
  | NoChanges jsstring
  | CreatingBranch nat
  | BranchFailed "jsstring option"
  | Committing jsstring
  | CommitFailed "jsstring option"
  | Pushing jsstring "jsstring option"
  | PushFailed
  | CreatingPR
  | PRFailed "jsstring option" jsstring
  | Deploying "jsstring option"
  | Deployed "jsstring option" "jsstring option" jsstring "jsstring option" jsstring jsstring
      "jsstring list" jsstring
  | PartialSuccess "jsstring option" jsstring jsstring "jsstring list" jsstring
  | SystemError jsstring "jsstring option"
  | CriticalError jsstring

text \<open>
  The calls that leave the program: the Slack web client, the file system, the git
  client, and the three services whose code is not part of the sources at hand (the
  Claude agent, the GitHub API service, the Vercel deployment service).
\<close>

datatype event =
    ReactionsAdd jsstring jsstring jsstring
  | ChatPostMessage jsstring statusText jsstring
  | ChatUpdate jsstring jsstring statusText
  | FsAccess
  | FsMkdir
  | GitClone
  | GitCheckout jsstring
  | GitPull jsstring
  | GitDeleteLocalBranch jsstring
  | GitCheckoutLocalBranch jsstring
  | GitAdd "jsstring list"
  | GitAddAll
  | GitStatus
  | GitCommit jsstring
  | GitAddConfig
  | GitPush jsstring
  | AnalyzeAndFix jsstring jsstring
  | FormatPRDescription jsstring jsstring "jsstring list"
  | CreatePullRequest jsstring jsstring jsstring
  | AddLabels nat
  | WaitForDeployment jsstring nat

text \<open>
  An exception is represented by the text that
  \<open>error instanceof Error ? error.message : String(error)\<close> extracts from it.
\<close>

type_synonym exn = jsstring

record PostResponse =
  post_ok :: bool
  post_ts :: "jsstring option"
  post_error :: "jsstring option"

record UpdateResponse =
  upd_ok :: bool
  upd_error :: "jsstring option"

record StatusResult =
  st_files :: "jsstring list"
  st_current :: "jsstring option"

text \<open>
  \<open>checkout\<close> and \<open>pull\<close> are called by \<open>initializeRepo\<close> and by \<open>createBranch\<close>;
  \<open>status\<close> is called by \<open>commitChanges\<close> and by \<open>getCurrentBranch\<close>.
\<close>

datatype caller = InInitializeRepo | InCreateBranch

datatype statusCaller = InCommitChanges | InGetCurrentBranch

text \<open>
  The world fixes the configuration and what every call returns or throws
  (\<open>Inl\<close> is a throw). \<open>processIssue\<close> has no loop, so each call site runs at most once
  in a run, and a world that answers per call site describes every possible run: the
  Slack calls are told apart by the status text or the emoji they send, the git calls
  that have two call sites by their caller.
\<close>

record world =
  baseBranch :: jsstring
  repoPath :: jsstring
  chat_postMessage :: "statusText \<Rightarrow> exn + PostResponse"
  chat_update :: "statusText \<Rightarrow> exn + UpdateResponse"
  reactions_add :: "jsstring \<Rightarrow> exn + unit"
  fs_access :: "exn + unit"
  fs_mkdir :: "exn + unit"
  git_clone :: "exn + unit"
  git_checkout :: "caller \<Rightarrow> exn + unit"
  git_pull :: "caller \<Rightarrow> exn + unit"
  git_deleteLocalBranch :: "exn + unit"
  git_checkoutLocalBranch :: "exn + unit"
  git_add :: "exn + unit"
  git_status :: "statusCaller \<Rightarrow> exn + StatusResult"
  git_commit :: "exn + jsstring"
  git_addConfig :: "exn + unit"
  git_push :: "exn + unit"
  analyzeAndFix :: "exn + FixResult"
  formatPRDescription :: "exn + jsstring"
  createPullRequest :: "exn + GitHubPRResult"
  addLabels :: "exn + unit"
  waitForDeployment :: "exn + DeploymentResult"

section \<open>Actions\<close>

text \<open>
  The state of a run: the calls made so far, whether the git service holds a client
  (\<open>this.git\<close> is not \<open>null\<close>), and the two variables \<open>statusMessageTs\<close> and \<open>branchName\<close>
  that \<open>processIssue\<close> assigns in its \<open>try\<close> block and reads in its \<open>catch\<close> block.
\<close>

record state =
  trace :: "event list"
  git :: bool
  statusMessageTs :: "jsstring option"
  branchName :: "jsstring option"

text \<open>An action returns a value or throws, and leaves a new state.\<close>

type_synonym 'a action = "state \<Rightarrow> (exn + 'a) \<times> state"

definition ret :: "'a \<Rightarrow> 'a action" where
  "ret x s = (Inr x, s)"

definition throw :: "exn \<Rightarrow> 'a action" where
  "throw e s = (Inl e, s)"

text \<open>\<open>await m f\<close>: \<open>const x = await m; f x\<close>. A throw of \<open>m\<close> skips \<open>f\<close>.\<close>

definition await :: "'a action \<Rightarrow> ('a \<Rightarrow> 'b action) \<Rightarrow> 'b action" where
  "await m f s = (case m s of (Inl e, s') \<Rightarrow> (Inl e, s') | (Inr x, s') \<Rightarrow> f x s')"

text \<open>\<open>tryCatch m h\<close>: \<open>try { m } catch (error) { h error }\<close>.\<close>

definition tryCatch :: "'a action \<Rightarrow> (exn \<Rightarrow> 'a action) \<Rightarrow> 'a action" where
  "tryCatch m h s = (case m s of (Inl e, s') \<Rightarrow> h e s' | (Inr x, s') \<Rightarrow> (Inr x, s'))"

text \<open>A call that leaves the program is recorded, and answers as the world says.\<close>

definition perform :: "event \<Rightarrow> exn + 'a \<Rightarrow> 'a action" where
  "perform ev r s = (r, s\<lparr>trace := trace s @ [ev]\<rparr>)"

definition assign :: "(state \<Rightarrow> state) \<Rightarrow> unit action" where
  "assign f s = (Inr (), f s)"

definition reading :: "(state \<Rightarrow> 'a) \<Rightarrow> ('a \<Rightarrow> 'b action) \<Rightarrow> 'b action" where
  "reading g f s = f (g s) s"

section \<open>SlackService\<close>

definition postMessage :: "world \<Rightarrow> jsstring \<Rightarrow> statusText \<Rightarrow> jsstring \<Rightarrow> jsstring action" where
  "postMessage w channel text threadTs =
     tryCatch
       (await (perform (ChatPostMessage channel text threadTs) (chat_postMessage w text))
          (\<lambda>result.
             case (if post_ok result then truthy (post_ts result) else None) of
               None \<Rightarrow>
                 throw (str ''Slack API error: '' @ orElse (post_error result) (str ''Unknown error''))
             | Some ts \<Rightarrow> ret ts))
       (\<lambda>error. throw error)"

definition updateMessage :: "world \<Rightarrow> jsstring \<Rightarrow> jsstring \<Rightarrow> statusText \<Rightarrow> unit action" where
  "updateMessage w channel ts text =
     tryCatch
       (await (perform (ChatUpdate channel ts text) (chat_update w text))
          (\<lambda>result.
             if \<not> upd_ok result
             then throw (str ''Slack API error: '' @ orElse (upd_error result) (str ''Unknown error''))
             else ret ()))
       (\<lambda>error. throw error)"

definition addReaction :: "world \<Rightarrow> jsstring \<Rightarrow> jsstring \<Rightarrow> jsstring \<Rightarrow> unit action" where
  "addReaction w channel timestamp emoji =
     tryCatch
       (perform (ReactionsAdd channel timestamp emoji) (reactions_add w emoji))
       (\<lambda>error. ret ())"

section \<open>GitAutomationService\<close>

definition notInitialized :: exn where
  "notInitialized = str ''Git not initialized. Call initializeRepo() first.''"

definition checkRepoExists :: "world \<Rightarrow> bool action" where
  "checkRepoExists w =
     tryCatch (await (perform FsAccess (fs_access w)) (\<lambda>_. ret True)) (\<lambda>error. ret False)"

text \<open>
  \<open>initializeRepo\<close>. The path and the authenticated URL it passes to \<open>mkdir\<close> and \<open>clone\<close>
  are left out of the recorded calls.
\<close>

definition initializeRepo :: "world \<Rightarrow> unit action" where
  "initializeRepo w =
     tryCatch
       (await (checkRepoExists w) (\<lambda>exists.
        await (if \<not> exists
               then await (perform FsMkdir (fs_mkdir w)) (\<lambda>_. perform GitClone (git_clone w))
               else ret ()) (\<lambda>_.
        await (assign (\<lambda>s. s\<lparr>git := True\<rparr>)) (\<lambda>_.
        await (perform (GitCheckout (baseBranch w)) (git_checkout w InInitializeRepo)) (\<lambda>_.
        perform (GitPull (baseBranch w)) (git_pull w InInitializeRepo))))))
       (\<lambda>error. throw error)"

definition createBranch :: "world \<Rightarrow> BranchOptions \<Rightarrow> GitBranchResult action" where
  "createBranch w options =
     reading git (\<lambda>ready.
       if \<not> ready then throw notInitialized
       else
         tryCatch
           (let name = generateBranchName options;
                base = orElse (opt_baseBranch options) (baseBranch w)
            in
            await (perform (GitCheckout base) (git_checkout w InCreateBranch)) (\<lambda>_.
            await (perform (GitPull base) (git_pull w InCreateBranch)) (\<lambda>_.
            await (tryCatch (perform (GitDeleteLocalBranch name) (git_deleteLocalBranch w))
                     (\<lambda>error. ret ())) (\<lambda>_.
            await (perform (GitCheckoutLocalBranch name) (git_checkoutLocalBranch w)) (\<lambda>_.
            ret \<lparr>br_success = True, br_branchName = Some name, br_error = None\<rparr>)))))
           (\<lambda>error. ret \<lparr>br_success = False, br_branchName = None, br_error = Some error\<rparr>))"

definition getCurrentBranch :: "world \<Rightarrow> jsstring action" where
  "getCurrentBranch w =
     reading git (\<lambda>ready.
       if \<not> ready then throw notInitialized
       else
         await (perform GitStatus (git_status w InGetCurrentBranch)) (\<lambda>status.
         ret (orElse (st_current status) (str ''unknown''))))"

definition commitChanges :: "world \<Rightarrow> jsstring \<Rightarrow> jsstring list \<Rightarrow> GitCommitResult action" where
  "commitChanges w message files =
     reading git (\<lambda>ready.
       if \<not> ready then throw notInitialized
       else
         tryCatch
           (await (if length files > 0
                   then perform (GitAdd files) (git_add w)
                   else perform GitAddAll (git_add w)) (\<lambda>_.
            await (perform GitStatus (git_status w InCommitChanges)) (\<lambda>status.
            if length (st_files status) = 0
            then
              await (getCurrentBranch w) (\<lambda>current.
              ret \<lparr>cr_success = True, cr_hash = None, cr_branch = Some current, cr_error = None\<rparr>)
            else
              await (perform (GitCommit message) (git_commit w)) (\<lambda>hash.
              await (getCurrentBranch w) (\<lambda>current.
              ret \<lparr>cr_success = True, cr_hash = Some hash, cr_branch = Some current,
                   cr_error = None\<rparr>)))))
           (\<lambda>error.
              ret \<lparr>cr_success = False, cr_hash = None, cr_branch = None, cr_error = Some error\<rparr>))"

definition pushBranch :: "world \<Rightarrow> jsstring \<Rightarrow> bool action" where
  "pushBranch w name =
     reading git (\<lambda>ready.
       if \<not> ready then throw notInitialized
       else
         tryCatch
           (await (perform GitAddConfig (git_addConfig w)) (\<lambda>_.
            await (perform (GitPush name) (git_push w)) (\<lambda>_.
            ret True)))
           (\<lambda>error. ret False))"

section \<open>processIssue\<close>

text \<open>
  The \<open>try\<close> block of \<open>processIssue\<close> is written step by step, as its comments number
  the steps: each definition below is the code from one \<open>STEP\<close> comment to the next,
  and ends in the step that follows it. A step takes the constants that are live at
  its start: the timestamp of the status message, the fix, the branch type and
  name, the commit, the pull request, the deployment. Calls of the logger are left
  out.
\<close>

text \<open>\<open>commitResult.hash?.substring(0, 7)\<close>.\<close>

definition hash7 :: "GitCommitResult \<Rightarrow> jsstring option" where
  "hash7 commitResult = map_option (\<lambda>h. substring0 h 7) (cr_hash commitResult)"

definition step9 ::
  "world \<Rightarrow> IssueJob \<Rightarrow> jsstring \<Rightarrow> FixResult \<Rightarrow> jsstring \<Rightarrow> GitCommitResult
    \<Rightarrow> GitHubPRResult \<Rightarrow> DeploymentResult \<Rightarrow> JobResult action" where
  "step9 w job ts fixResult name commitResult prResult deployment =
     (if dr_success deployment \<and> truthy (dr_url deployment) \<noteq> None
      then
        await (updateMessage w (job_channel job) ts
                 (Deployed (dr_url deployment) (pr_prUrl prResult) name
                    (hash7 commitResult)
                    (fr_analysis fixResult) (fr_solution fixResult) (fr_filesChanged fixResult)
                    (job_userId job))) (\<lambda>_.
        await (addReaction w (job_channel job) (job_threadTs job) (str ''white_check_mark'')) (\<lambda>_.
        ret \<lparr>jr_jobId = job_id job, jr_status = Completed, jr_branchName = Some name,
             jr_prUrl = pr_prUrl prResult, jr_previewUrl = dr_url deployment,
             jr_result = Some fixResult, jr_deployment = Some deployment, jr_error = None\<rparr>))
      else
        await (updateMessage w (job_channel job) ts
                 (PartialSuccess (pr_prUrl prResult) name (fr_solution fixResult)
                    (fr_filesChanged fixResult)
                    (orElse (dr_error deployment)
                       (str ''Deployment is taking longer than expected'')))) (\<lambda>_.
        await (addReaction w (job_channel job) (job_threadTs job) (str ''warning'')) (\<lambda>_.
        ret \<lparr>jr_jobId = job_id job, jr_status = Completed, jr_branchName = Some name,
             jr_prUrl = pr_prUrl prResult, jr_previewUrl = None,
             jr_result = Some fixResult, jr_deployment = Some deployment, jr_error = None\<rparr>)))"

definition step8 ::
  "world \<Rightarrow> IssueJob \<Rightarrow> jsstring \<Rightarrow> FixResult \<Rightarrow> jsstring \<Rightarrow> GitCommitResult
    \<Rightarrow> GitHubPRResult \<Rightarrow> JobResult action" where
  "step8 w job ts fixResult name commitResult prResult =
     await (updateMessage w (job_channel job) ts (Deploying (pr_prUrl prResult))) (\<lambda>_.
     await (perform (WaitForDeployment name 5) (waitForDeployment w)) (\<lambda>deployment.
     step9 w job ts fixResult name commitResult prResult deployment))"

definition step7 ::
  "world \<Rightarrow> IssueJob \<Rightarrow> jsstring \<Rightarrow> FixResult \<Rightarrow> BranchNamingStrategy \<Rightarrow> jsstring
    \<Rightarrow> GitCommitResult \<Rightarrow> JobResult action" where
  "step7 w job ts fixResult branchType name commitResult =
     await (updateMessage w (job_channel job) ts CreatingPR) (\<lambda>_.
     let prTitle = generatePRTitle (job_text job) (strategyText branchType) in
     await (perform (FormatPRDescription (fr_analysis fixResult) (fr_solution fixResult)
                       (fr_filesChanged fixResult)) (formatPRDescription w)) (\<lambda>prBody.
     await (perform (CreatePullRequest name prTitle prBody) (createPullRequest w)) (\<lambda>prResult.
     if \<not> pr_success prResult \<or> truthy (pr_prUrl prResult) = None
     then
       await (updateMessage w (job_channel job) ts (PRFailed (pr_error prResult) name)) (\<lambda>_.
       ret \<lparr>jr_jobId = job_id job, jr_status = Completed, jr_branchName = Some name,
            jr_prUrl = None, jr_previewUrl = None, jr_result = Some fixResult,
            jr_deployment = None, jr_error = pr_error prResult\<rparr>)
     else
       await (case pr_prNumber prResult of
                None \<Rightarrow> ret ()
              | Some n \<Rightarrow> if n \<noteq> 0 then perform (AddLabels n) (addLabels w) else ret ()) (\<lambda>_.
       step8 w job ts fixResult name commitResult prResult))))"

definition step6 ::
  "world \<Rightarrow> IssueJob \<Rightarrow> jsstring \<Rightarrow> FixResult \<Rightarrow> BranchNamingStrategy \<Rightarrow> jsstring
    \<Rightarrow> GitCommitResult \<Rightarrow> JobResult action" where
  "step6 w job ts fixResult branchType name commitResult =
     await (updateMessage w (job_channel job) ts
              (Pushing name (hash7 commitResult))) (\<lambda>_.
     await (pushBranch w name) (\<lambda>pushSuccess.
     if \<not> pushSuccess
     then
       await (updateMessage w (job_channel job) ts PushFailed) (\<lambda>_.
       ret \<lparr>jr_jobId = job_id job, jr_status = Failed, jr_branchName = None,
            jr_prUrl = None, jr_previewUrl = None, jr_result = Some fixResult,
            jr_deployment = None, jr_error = Some (str ''Failed to push to remote'')\<rparr>)
     else step7 w job ts fixResult branchType name commitResult))"

definition step5 ::
  "world \<Rightarrow> IssueJob \<Rightarrow> jsstring \<Rightarrow> FixResult \<Rightarrow> BranchNamingStrategy \<Rightarrow> jsstring
    \<Rightarrow> JobResult action" where
  "step5 w job ts fixResult branchType name =
     await (updateMessage w (job_channel job) ts (Committing name)) (\<lambda>_.
     let commitMessage =
           generateCommitMessage (job_text job) (fr_solution fixResult) (fr_filesChanged fixResult)
     in
     await (commitChanges w commitMessage (fr_filesChanged fixResult)) (\<lambda>commitResult.
     if \<not> cr_success commitResult
     then
       await (updateMessage w (job_channel job) ts (CommitFailed (cr_error commitResult))) (\<lambda>_.
       ret \<lparr>jr_jobId = job_id job, jr_status = Failed, jr_branchName = None,
            jr_prUrl = None, jr_previewUrl = None, jr_result = Some fixResult,
            jr_deployment = None, jr_error = cr_error commitResult\<rparr>)
     else step6 w job ts fixResult branchType name commitResult))"

definition step4 :: "world \<Rightarrow> IssueJob \<Rightarrow> jsstring \<Rightarrow> FixResult \<Rightarrow> JobResult action" where
  "step4 w job ts fixResult =
     await (updateMessage w (job_channel job) ts
              (CreatingBranch (length (fr_filesChanged fixResult)))) (\<lambda>_.
     let branchType = determineBranchType (job_text job);
         branchOptions =
           \<lparr>opt_type = branchType, opt_description = substring0 (job_text job) 50,
            opt_baseBranch = None\<rparr>
     in
     await (createBranch w branchOptions) (\<lambda>branchResult.
     case (if br_success branchResult then truthy (br_branchName branchResult) else None) of
       None \<Rightarrow>
         await (updateMessage w (job_channel job) ts (BranchFailed (br_error branchResult))) (\<lambda>_.
         ret \<lparr>jr_jobId = job_id job, jr_status = Failed, jr_branchName = None,
              jr_prUrl = None, jr_previewUrl = None, jr_result = Some fixResult,
              jr_deployment = None, jr_error = br_error branchResult\<rparr>)
     | Some name \<Rightarrow>
         await (assign (\<lambda>s. s\<lparr>branchName := Some name\<rparr>)) (\<lambda>_.
         step5 w job ts fixResult branchType name)))"

definition step3 :: "world \<Rightarrow> IssueJob \<Rightarrow> jsstring \<Rightarrow> JobResult action" where
  "step3 w job ts =
     await (updateMessage w (job_channel job) ts RunningAgent) (\<lambda>_.
     await (perform (AnalyzeAndFix (job_text job) (repoPath w)) (analyzeAndFix w)) (\<lambda>fixResult.
     if \<not> fr_success fixResult
     then
       await (updateMessage w (job_channel job) ts
                (AnalysisFailed (orElse (fr_error fixResult) (str ''Unknown error occurred'')))) (\<lambda>_.
       ret \<lparr>jr_jobId = job_id job, jr_status = Failed, jr_branchName = None,
            jr_prUrl = None, jr_previewUrl = None, jr_result = None,
            jr_deployment = None, jr_error = fr_error fixResult\<rparr>)
     else if length (fr_filesChanged fixResult) = 0
     then
       await (updateMessage w (job_channel job) ts (NoChanges (fr_analysis fixResult))) (\<lambda>_.
       ret \<lparr>jr_jobId = job_id job, jr_status = Completed, jr_branchName = None,
            jr_prUrl = None, jr_previewUrl = None, jr_result = Some fixResult,
            jr_deployment = None, jr_error = None\<rparr>)
     else step4 w job ts fixResult))"

definition step2 :: "world \<Rightarrow> IssueJob \<Rightarrow> jsstring \<Rightarrow> JobResult action" where
  "step2 w job ts =
     await (updateMessage w (job_channel job) ts Cloning) (\<lambda>_.
     await (initializeRepo w) (\<lambda>_.
     step3 w job ts))"

definition step1 :: "world \<Rightarrow> IssueJob \<Rightarrow> JobResult action" where
  "step1 w job =
     await (addReaction w (job_channel job) (job_threadTs job) (str ''eyes'')) (\<lambda>_.
     await (postMessage w (job_channel job) Analyzing (job_threadTs job)) (\<lambda>statusMsg.
     await (assign (\<lambda>s. s\<lparr>statusMessageTs := Some statusMsg\<rparr>)) (\<lambda>_.
     step2 w job statusMsg)))"

text \<open>The \<open>catch\<close> block.\<close>

definition processIssueCatch :: "world \<Rightarrow> IssueJob \<Rightarrow> exn \<Rightarrow> JobResult action" where
  "processIssueCatch w job error =
     await (reading statusMessageTs (\<lambda>v.
              case truthy v of
                None \<Rightarrow> ret ()
              | Some ts \<Rightarrow>
                  tryCatch
                    (reading branchName (\<lambda>b.
                       updateMessage w (job_channel job) ts (SystemError error b)))
                    (\<lambda>_.
                       await (postMessage w (job_channel job) (CriticalError error)
                                (job_threadTs job)) (\<lambda>_.
                       ret ())))) (\<lambda>_.
     ret \<lparr>jr_jobId = job_id job, jr_status = Failed, jr_branchName = None,
          jr_prUrl = None, jr_previewUrl = None, jr_result = None,
          jr_deployment = None, jr_error = Some error\<rparr>)"

definition processIssue :: "world \<Rightarrow> IssueJob \<Rightarrow> JobResult action" where
  "processIssue w job =
     await (assign (\<lambda>s. s\<lparr>statusMessageTs := None, branchName := None\<rparr>)) (\<lambda>_.
     tryCatch (step1 w job) (processIssueCatch w job))"

section \<open>Outcomes of calls\<close>

text \<open>
  What a Slack call does in a world: \<open>edits w text\<close> says that the edit of the status
  message to \<open>text\<close> returns, \<open>posts w text\<close> is the timestamp that posting \<open>text\<close>
  returns, if it returns; \<open>editError\<close> and \<open>postError\<close> are what the calls throw
  otherwise.
\<close>

definition edits :: "world \<Rightarrow> statusText \<Rightarrow> bool" where
  "edits w text = (case chat_update w text of Inl e \<Rightarrow> False | Inr result \<Rightarrow> upd_ok result)"

definition editError :: "world \<Rightarrow> statusText \<Rightarrow> exn" where
  "editError w text =
     (case chat_update w text of
        Inl e \<Rightarrow> e
      | Inr result \<Rightarrow> str ''Slack API error: '' @ orElse (upd_error result) (str ''Unknown error''))"

definition posts :: "world \<Rightarrow> statusText \<Rightarrow> jsstring option" where
  "posts w text =
     (case chat_postMessage w text of
        Inl e \<Rightarrow> None
      | Inr result \<Rightarrow> if post_ok result then truthy (post_ts result) else None)"

definition postError :: "world \<Rightarrow> statusText \<Rightarrow> exn" where
  "postError w text =
     (case chat_postMessage w text of
        Inl e \<Rightarrow> e
      | Inr result \<Rightarrow> str ''Slack API error: '' @ orElse (post_error result) (str ''Unknown error''))"

text \<open>
  \<open>returns m\<close> and \<open>calls m\<close> are the outcome of an action and the calls it makes
  when the git service holds a client. For the methods of the git service neither
  depends on anything else in the state (lemmas \<open>createBranch_run\<close>,
  \<open>commitChanges_run\<close>, \<open>pushBranch_run\<close>, \<open>initializeRepo_run\<close> below).
\<close>

definition ready :: state where
  "ready = \<lparr>trace = [], git = True, statusMessageTs = None, branchName = None\<rparr>"

definition returns :: "'a action \<Rightarrow> exn + 'a" where
  "returns m = fst (m ready)"

definition calls :: "'a action \<Rightarrow> event list" where
  "calls m = trace (snd (m ready))"

text \<open>The calls made between two states of a run.\<close>

definition newEvents :: "state \<Rightarrow> state \<Rightarrow> event list" where
  "newEvents s s' = drop (length (trace s)) (trace s')"

section \<open>Reaching a step\<close>

text \<open>
  \<open>reachesStep4 w ts fixResult\<close>: in the world \<open>w\<close> the run gets to STEP 4, that is,
  the status message is posted with timestamp \<open>ts\<close>, its edits of steps 2 and 3
  return, the repository is initialised, and the agent returns \<open>fixResult\<close>, a success
  with at least one changed file. The predicates for the later steps add the edits and
  the results of the steps between: the branch is created with the name \<open>name\<close>, the
  commit returns \<open>commitResult\<close>, a success, and the push returns \<open>true\<close>.
\<close>

definition reachesStep4 :: "world \<Rightarrow> jsstring \<Rightarrow> FixResult \<Rightarrow> bool" where
  "reachesStep4 w ts fixResult \<longleftrightarrow>
     posts w Analyzing = Some ts \<and> edits w Cloning \<and> returns (initializeRepo w) = Inr ()
     \<and> edits w RunningAgent \<and> analyzeAndFix w = Inr fixResult
     \<and> fr_success fixResult \<and> fr_filesChanged fixResult \<noteq> []"

definition reachesStep5 :: "world \<Rightarrow> IssueJob \<Rightarrow> jsstring \<Rightarrow> FixResult \<Rightarrow> jsstring \<Rightarrow> bool" where
  "reachesStep5 w job ts fixResult name \<longleftrightarrow>
     reachesStep4 w ts fixResult
     \<and> edits w (CreatingBranch (length (fr_filesChanged fixResult)))
     \<and> returns (createBranch w (branchOptionsOf (job_text job)))
         = Inr \<lparr>br_success = True, br_branchName = Some name, br_error = None\<rparr>"

definition commitMessageOf :: "IssueJob \<Rightarrow> FixResult \<Rightarrow> jsstring" where
  "commitMessageOf job fixResult =
     generateCommitMessage (job_text job) (fr_solution fixResult) (fr_filesChanged fixResult)"

definition reachesStep6 ::
  "world \<Rightarrow> IssueJob \<Rightarrow> jsstring \<Rightarrow> FixResult \<Rightarrow> jsstring \<Rightarrow> GitCommitResult \<Rightarrow> bool" where
  "reachesStep6 w job ts fixResult name commitResult \<longleftrightarrow>
     reachesStep5 w job ts fixResult name
     \<and> edits w (Committing name)
     \<and> returns (commitChanges w (commitMessageOf job fixResult) (fr_filesChanged fixResult))
         = Inr commitResult
     \<and> cr_success commitResult"

definition reachesStep7 ::
  "world \<Rightarrow> IssueJob \<Rightarrow> jsstring \<Rightarrow> FixResult \<Rightarrow> jsstring \<Rightarrow> GitCommitResult \<Rightarrow> bool" where
  "reachesStep7 w job ts fixResult name commitResult \<longleftrightarrow>
     reachesStep6 w job ts fixResult name commitResult
     \<and> edits w (Pushing name (hash7 commitResult))
     \<and> returns (pushBranch w name) = Inr True"

text \<open>The calls of a run before each step.\<close>

definition callsBeforeStep3 :: "world \<Rightarrow> IssueJob \<Rightarrow> jsstring \<Rightarrow> event list" where
  "callsBeforeStep3 w job ts =
     [ReactionsAdd (job_channel job) (job_threadTs job) (str ''eyes''),
      ChatPostMessage (job_channel job) Analyzing (job_threadTs job),
      ChatUpdate (job_channel job) ts Cloning]
     @ calls (initializeRepo w)"

definition callsBeforeStep4 :: "world \<Rightarrow> IssueJob \<Rightarrow> jsstring \<Rightarrow> event list" where
  "callsBeforeStep4 w job ts =
     callsBeforeStep3 w job ts
     @ [ChatUpdate (job_channel job) ts RunningAgent, AnalyzeAndFix (job_text job) (repoPath w)]"

definition callsBeforeStep5 :: "world \<Rightarrow> IssueJob \<Rightarrow> jsstring \<Rightarrow> FixResult \<Rightarrow> event list" where
  "callsBeforeStep5 w job ts fixResult =
     callsBeforeStep4 w job ts
     @ [ChatUpdate (job_channel job) ts (CreatingBranch (length (fr_filesChanged fixResult)))]
     @ calls (createBranch w (branchOptionsOf (job_text job)))"

definition callsBeforeStep6 ::
  "world \<Rightarrow> IssueJob \<Rightarrow> jsstring \<Rightarrow> FixResult \<Rightarrow> jsstring \<Rightarrow> event list" where
  "callsBeforeStep6 w job ts fixResult name =
     callsBeforeStep5 w job ts fixResult
     @ [ChatUpdate (job_channel job) ts (Committing name)]
     @ calls (commitChanges w (commitMessageOf job fixResult) (fr_filesChanged fixResult))"

definition callsBeforeStep7 ::
  "world \<Rightarrow> IssueJob \<Rightarrow> jsstring \<Rightarrow> FixResult \<Rightarrow> jsstring \<Rightarrow> GitCommitResult \<Rightarrow> event list" where
  "callsBeforeStep7 w job ts fixResult name commitResult =
     callsBeforeStep6 w job ts fixResult name
     @ [ChatUpdate (job_channel job) ts (Pushing name (hash7 commitResult))]
     @ calls (pushBranch w name)"

text \<open>The result the \<open>catch\<close> block returns, and the commit result of a commit that found
  nothing to commit.\<close>

definition caughtResult :: "IssueJob \<Rightarrow> exn \<Rightarrow> JobResult" where
  "caughtResult job error =
     \<lparr>jr_jobId = job_id job, jr_status = Failed, jr_branchName = None,
      jr_prUrl = None, jr_previewUrl = None, jr_result = None,
      jr_deployment = None, jr_error = Some error\<rparr>"

definition noChangeCommit :: "StatusResult \<Rightarrow> GitCommitResult" where
  "noChangeCommit status =
     \<lparr>cr_success = True, cr_hash = None,
      cr_branch = Some (orElse (st_current status) (str ''unknown'')), cr_error = None\<rparr>"

text \<open>
  \<open>reportsErrorText w\<close>: a fix that reports failure carries an error text.
  \<open>failedWithError\<close>: the invariant of a job result.
\<close>

definition reportsErrorText :: "world \<Rightarrow> bool" where
  "reportsErrorText w =
     (case analyzeAndFix w of
        Inl e \<Rightarrow> True
      | Inr fixResult \<Rightarrow> fr_success fixResult \<or> fr_error fixResult \<noteq> None)"

definition failedWithError :: "JobResult \<Rightarrow> bool" where
  "failedWithError result = (jr_status result \<noteq> Failed \<or> jr_error result \<noteq> None)"

section \<open>Properties of all runs\<close>

text \<open>
  \<open>emits P m\<close>: every call that \<open>m\<close> makes, from any state, satisfies \<open>P\<close>.
  \<open>yields Q m\<close>: every value that \<open>m\<close> returns, from any state, satisfies \<open>Q\<close>.
\<close>

definition emits :: "(event \<Rightarrow> bool) \<Rightarrow> 'a action \<Rightarrow> bool" where
  "emits P m \<longleftrightarrow> (\<forall>s. \<exists>evs. trace (snd (m s)) = trace s @ evs \<and> list_all P evs)"

definition yields :: "('a \<Rightarrow> bool) \<Rightarrow> 'a action \<Rightarrow> bool" where
  "yields Q m \<longleftrightarrow> (\<forall>s x s'. m s = (Inr x, s') \<longrightarrow> Q x)"

text \<open>\<open>keeps f m\<close>: \<open>m\<close> leaves the component \<open>f\<close> of the state as it is.\<close>

definition keeps :: "(state \<Rightarrow> 'b) \<Rightarrow> 'a action \<Rightarrow> bool" where
  "keeps f m \<longleftrightarrow> (\<forall>s. f (snd (m s)) = f s)"

text \<open>
  The calls that create a branch, commit, push or open a pull request; the two
  staging calls; and the staging that \<open>processIssue\<close> is allowed: never everything, and
  a list of files only when it is the non-empty list of the fix.
\<close>

definition isVcsWrite :: "event \<Rightarrow> bool" where
  "isVcsWrite ev =
     (case ev of
        GitDeleteLocalBranch name \<Rightarrow> True
      | GitCheckoutLocalBranch name \<Rightarrow> True
      | GitAdd files \<Rightarrow> True
      | GitAddAll \<Rightarrow> True
      | GitCommit message \<Rightarrow> True
      | GitAddConfig \<Rightarrow> True
      | GitPush name \<Rightarrow> True
      | FormatPRDescription analysis solution files \<Rightarrow> True
      | CreatePullRequest name title body \<Rightarrow> True
      | AddLabels n \<Rightarrow> True
      | _ \<Rightarrow> False)"

definition isStaging :: "event \<Rightarrow> bool" where
  "isStaging ev = (case ev of GitAdd files \<Rightarrow> True | GitAddAll \<Rightarrow> True | _ \<Rightarrow> False)"

definition stagesFixOnly :: "world \<Rightarrow> event \<Rightarrow> bool" where
  "stagesFixOnly w ev =
     (case ev of
        GitAddAll \<Rightarrow> False
      | GitAdd files \<Rightarrow>
          files \<noteq> [] \<and>
          (case analyzeAndFix w of Inl e \<Rightarrow> False | Inr fixResult \<Rightarrow> files = fr_filesChanged fixResult)
      | _ \<Rightarrow> True)"

section \<open>Worlds of the examples\<close>

text \<open>
  \<open>world0\<close> is a world in which every call succeeds (but the deletion of a stale
  branch: there is none). The other worlds differ from it in one or two answers.
\<close>

definition fix0 :: FixResult where
  "fix0 = \<lparr>fr_success = True, fr_analysis = str ''typo'', fr_solution = str ''fixed'',
           fr_filesChanged = [str ''README.md''],
           fr_fixes = [\<lparr>fix_path = str ''README.md'', fix_description = str ''typo'',
                        fix_newContent = Some (str ''read me''), fix_originalContent = None\<rparr>],
           fr_error = None\<rparr>"

definition job0 :: IssueJob where
  "job0 = \<lparr>job_id = str ''job-1'', job_text = str ''Fix the typo'',
           job_channel = str ''C1'', job_threadTs = str ''100.1'', job_userId = str ''U1'',
           job_timestamp = 0, job_retryCount = Some 0\<rparr>"

definition world0 :: world where
  "world0 =
     \<lparr>baseBranch = str ''main'',
      repoPath = str ''/tmp/repo'',
      chat_postMessage =
        (\<lambda>_. Inr \<lparr>post_ok = True, post_ts = Some (str ''100.2''), post_error = None\<rparr>),
      chat_update = (\<lambda>_. Inr \<lparr>upd_ok = True, upd_error = None\<rparr>),
      reactions_add = (\<lambda>_. Inr ()),
      fs_access = Inr (),
      fs_mkdir = Inr (),
      git_clone = Inr (),
      git_checkout = (\<lambda>_. Inr ()),
      git_pull = (\<lambda>_. Inr ()),
      git_deleteLocalBranch = Inl (str ''branch not found''),
      git_checkoutLocalBranch = Inr (),
      git_add = Inr (),
      git_status =
        (\<lambda>_. Inr \<lparr>st_files = [str ''README.md''], st_current = Some (str ''fix/fix-the-typo'')\<rparr>),
      git_commit = Inr (str ''0123456789abcdef''),
      git_addConfig = Inr (),
      git_push = Inr (),
      analyzeAndFix = Inr fix0,
      formatPRDescription = Inr (str ''body''),
      createPullRequest =
        Inr \<lparr>pr_success = True, pr_prNumber = Some 7, pr_prUrl = Some (str ''https://pr/7''),
             pr_error = None\<rparr>,
      addLabels = Inr (),
      waitForDeployment =
        Inr \<lparr>dr_success = True, dr_url = Some (str ''https://preview''),
             dr_deploymentId = Some (str ''d1''), dr_status = Some READY, dr_error = None\<rparr>\<rparr>"

definition name0 :: jsstring where
  "name0 = derivedBranchName (job_text job0)"

definition commit0 :: GitCommitResult where
  "commit0 = \<lparr>cr_success = True, cr_hash = Some (str ''0123456789abcdef''),
              cr_branch = Some (str ''fix/fix-the-typo''), cr_error = None\<rparr>"

definition slackDown :: exn where
  "slackDown = str ''An API error occurred: service_unavailable''"

text \<open>The checkout of the base branch fails, and so does the edit that reports it.\<close>

definition worldCheckoutFails :: world where
  "worldCheckoutFails =
     world0
       \<lparr>git_checkout := (\<lambda>c. Inl (str ''pathspec main did not match'')),
        chat_update := (\<lambda>text. case text of
                                 SystemError error name \<Rightarrow> Inl slackDown
                               | _ \<Rightarrow> Inr \<lparr>upd_ok = True, upd_error = None\<rparr>)\<rparr>"

text \<open>The first post fails; and: the first post succeeds, every later Slack call fails.\<close>

definition worldNoStatusMessage :: world where
  "worldNoStatusMessage = world0\<lparr>chat_postMessage := (\<lambda>text. Inl slackDown)\<rparr>"

definition worldSlackDown :: world where
  "worldSlackDown =
     world0
       \<lparr>chat_postMessage :=
          (\<lambda>text. if text = Analyzing
                   then Inr \<lparr>post_ok = True, post_ts = Some (str ''100.2''), post_error = None\<rparr>
                   else Inl slackDown),
        chat_update := (\<lambda>text. Inl slackDown)\<rparr>"

text \<open>The agent reports failure, with the error text given (or none).\<close>

definition fixFailed :: "jsstring option \<Rightarrow> FixResult" where
  "fixFailed error =
     \<lparr>fr_success = False, fr_analysis = [], fr_solution = [], fr_filesChanged = [],
      fr_fixes = [], fr_error = error\<rparr>"

definition worldGenerationFails :: "jsstring option \<Rightarrow> world" where
  "worldGenerationFails error = world0\<lparr>analyzeAndFix := Inr (fixFailed error)\<rparr>"

text \<open>The agent succeeds and changes no file; and: the edit that says so fails.\<close>

definition fixNothing :: FixResult where
  "fixNothing = \<lparr>fr_success = True, fr_analysis = str ''already fixed'', fr_solution = [],
                 fr_filesChanged = [], fr_fixes = [], fr_error = None\<rparr>"

definition worldNoChanges :: world where
  "worldNoChanges = world0\<lparr>analyzeAndFix := Inr fixNothing\<rparr>"

definition worldNoChangesSilently :: world where
  "worldNoChangesSilently =
     worldNoChanges
       \<lparr>chat_update := (\<lambda>text. case text of
                                 NoChanges analysis \<Rightarrow> Inl slackDown
                               | _ \<Rightarrow> Inr \<lparr>upd_ok = True, upd_error = None\<rparr>)\<rparr>"

text \<open>
  The pull request fails with an error text; it returns success without a URL and
  without an error text; it fails and the edit that reports it fails too.
\<close>

definition worldPRFails :: world where
  "worldPRFails =
     world0\<lparr>createPullRequest :=
              Inr \<lparr>pr_success = False, pr_prNumber = None, pr_prUrl = None,
                   pr_error = Some (str ''Validation Failed'')\<rparr>\<rparr>"

definition worldPRWithoutUrl :: world where
  "worldPRWithoutUrl =
     world0\<lparr>createPullRequest :=
              Inr \<lparr>pr_success = True, pr_prNumber = Some 7, pr_prUrl = None, pr_error = None\<rparr>\<rparr>"

definition worldPRFailsSilently :: world where
  "worldPRFailsSilently =
     worldPRFails
       \<lparr>chat_update := (\<lambda>text. case text of
                                 PRFailed error name \<Rightarrow> Inl slackDown
                               | _ \<Rightarrow> Inr \<lparr>upd_ok = True, upd_error = None\<rparr>)\<rparr>"

text \<open>The push fails; and: the edit that reports it fails too.\<close>

definition worldPushFails :: world where
  "worldPushFails = world0\<lparr>git_push := Inl (str ''Authentication failed'')\<rparr>"

definition worldPushFailsSilently :: world where
  "worldPushFailsSilently =
     worldPushFails
       \<lparr>chat_update := (\<lambda>text. if text = PushFailed then Inl slackDown
                               else Inr \<lparr>upd_ok = True, upd_error = None\<rparr>)\<rparr>"

text \<open>
  After staging the status lists no file; and: the status that \<open>getCurrentBranch\<close>
  asks for next fails.
\<close>

definition statusClean :: StatusResult where
  "statusClean = \<lparr>st_files = [], st_current = Some (str ''fix/fix-the-typo'')\<rparr>"

definition worldNothingToCommit :: world where
  "worldNothingToCommit = world0\<lparr>git_status := (\<lambda>c. Inr statusClean)\<rparr>"

definition worldBranchUnreadable :: world where
  "worldBranchUnreadable =
     world0
       \<lparr>git_status := (\<lambda>c. case c of
                               InCommitChanges \<Rightarrow> Inr statusClean
                             | InGetCurrentBranch \<Rightarrow> Inl (str ''fatal: unable to read HEAD''))\<rparr>"

section \<open>Properties of the branch descriptor\<close>

lemma includes_sublist: "includesStr s k = sublist k s"
  by (induction s) (auto simp: sublist_Cons_right)

lemma replaceWhiteSpaceRuns_no_space:
  "\<not> list_ex isWhiteSpace (replaceWhiteSpaceRuns s)"
  by (induction s rule: replaceWhiteSpaceRuns.induct) (auto simp: isWhiteSpace_def)

lemma replaceWhiteSpaceRuns_slug:
  "list_all (\<lambda>c. isSlugChar c \<or> isWhiteSpace c) s \<Longrightarrow> list_all isSlugChar (replaceWhiteSpaceRuns s)"
proof (induction s rule: replaceWhiteSpaceRuns.induct)
  case 1
  show ?case by simp
next
  case (2 c cs)
  have rest: "list_all (\<lambda>c. isSlugChar c \<or> isWhiteSpace c) (dropWhile isWhiteSpace cs)"
    using "2.prems" by (auto simp: list_all_iff dest: set_dropWhileD)
  show ?case
  proof (cases "isWhiteSpace c")
    case True
    with "2.IH"(1) rest show ?thesis by (simp add: isSlugChar_def)
  next
    case False
    with "2.IH"(2) "2.prems" show ?thesis by simp
  qed
qed

lemma replaceWhiteSpaceRuns_Nil: "replaceWhiteSpaceRuns s = [] \<longleftrightarrow> s = []"
  by (cases s) auto

lemma sanitized_slug:
  "list_all isSlugChar (replaceWhiteSpaceRuns (removeSpecial s))"
  by (rule replaceWhiteSpaceRuns_slug) (simp add: removeSpecial_def list_all_iff)

lemma slugChar_not_space: "isSlugChar c \<Longrightarrow> \<not> isWhiteSpace c"
  by (auto simp: isSlugChar_def isWhiteSpace_def)

lemma derivedBranchName_split:
  "derivedBranchName text = strategyText (determineBranchType text) @ 47 # slugOf text"
  by (simp add: derivedBranchName_def generateBranchName_def branchOptionsOf_def substring0_def
      slugOf_def str_def)

lemma slugOf_chars: "list_all isSlugChar (slugOf text)"
  using sanitized_slug [of "toLowerCase (take 50 text)"]
  by (auto simp: slugOf_def list_all_iff dest: in_set_takeD)

lemma slugOf_length: "length (slugOf text) \<le> 50"
  by (simp add: slugOf_def)

lemma slugOf_Nil: "slugOf text = [] \<longleftrightarrow> removeSpecial (toLowerCase (take 50 text)) = []"
  by (simp add: slugOf_def replaceWhiteSpaceRuns_Nil)

lemma branchPattern_strategy:
  "branchPattern lo hi (strategyText t @ 47 # slug) \<longleftrightarrow>
     lo \<le> length slug \<and> length slug \<le> hi \<and> list_all isSlugChar slug"
  by (cases t) (simp_all add: branchPattern_def str_def)

text \<open>
  For every issue text the derived branch name has no white space, and its slug has
  at most 50 code units, all of them of \<open>[a-z0-9-]\<close>.
\<close>

lemma derivedBranchName_shape:
  "\<not> list_ex isWhiteSpace (derivedBranchName text)
   \<and> length (slugOf text) \<le> 50 \<and> list_all isSlugChar (slugOf text)"
proof -
  have chars: "list_all isSlugChar (slugOf text)" by (rule slugOf_chars)
  have "\<not> list_ex isWhiteSpace (strategyText (determineBranchType text))"
    by (cases "determineBranchType text") (simp_all add: str_def isWhiteSpace_def)
  moreover have "\<not> list_ex isWhiteSpace (slugOf text)"
    using chars by (auto simp: list_all_iff list_ex_iff dest: slugChar_not_space)
  moreover have "\<not> isWhiteSpace 47" by (simp add: isWhiteSpace_def)
  ultimately have "\<not> list_ex isWhiteSpace (derivedBranchName text)"
    by (auto simp add: derivedBranchName_split list_ex_iff)
  with chars slugOf_length [of "text"] show ?thesis
    by simp
qed

text \<open>Scenario A of the specification: \<open>Fix the typo in README.md\<close>.\<close>

lemma lower_scenarioA:
  "toLowerCase (str ''Fix the typo in README.md'') = str ''fix the typo in readme.md''"
  by (simp add: str_def toLowerCase_def toLowerCaseUnit_def)

lemma type_scenarioA: "determineBranchType (str ''Fix the typo in README.md'') = Fix"
  unfolding determineBranchType_def lower_scenarioA by (simp add: str_def)

lemma slug_scenarioA:
  "slugOf (str ''Fix the typo in README.md'') = str ''fix-the-typo-in-readmemd''"
proof -
  have "take 50 (str ''Fix the typo in README.md'') = str ''Fix the typo in README.md''"
    by (simp add: str_def)
  moreover have "removeSpecial (str ''fix the typo in readme.md'') = str ''fix the typo in readmemd''"
    by (simp add: str_def removeSpecial_def isSlugChar_def isWhiteSpace_def)
  moreover have "replaceWhiteSpaceRuns (str ''fix the typo in readmemd'')
                   = str ''fix-the-typo-in-readmemd''"
    by (simp add: str_def isWhiteSpace_def)
  moreover have "take 50 (str ''fix-the-typo-in-readmemd'') = str ''fix-the-typo-in-readmemd''"
    by (simp add: str_def)
  ultimately show ?thesis
    by (simp add: slugOf_def lower_scenarioA)
qed

lemma derivedBranchName_scenarioA:
  "derivedBranchName (str ''Fix the typo in README.md'') = str ''fix/fix-the-typo-in-readmemd''"
  by (simp add: derivedBranchName_split type_scenarioA slug_scenarioA) (simp add: str_def)

lemma str_bang: "str ''!!!'' = [33, 33, 33]" by (simp add: str_def)

lemma derived_bang: "derivedBranchName (str ''!!!'') = str ''chore/''"
  apply (simp add: derivedBranchName_split slugOf_def str_bang toLowerCase_def toLowerCaseUnit_def removeSpecial_def isSlugChar_def isWhiteSpace_def)
  apply (simp add: determineBranchType_def str_bang toLowerCase_def toLowerCaseUnit_def)
  apply (simp add: str_def)
  done

text \<open>
  Claim C3 asks that the branch name derived from any issue text matches
  \<open>^(fix|feat|refactor|chore)/[a-z0-9-]{1,50}$\<close>. The code breaks it at the issue text
  \<open>!!!\<close>: \<open>generateBranchName\<close> deletes the three characters (the comment above its
  sanitizer says that special characters are replaced with hyphens), so the slug is
  empty and the branch name is \<open>chore/\<close>, which the pattern rejects.
\<close>

theorem derivedBranchName_empty_slug:
  "derivedBranchName (str ''!!!'') = str ''chore/''
   \<and> \<not> branchPattern 1 50 (derivedBranchName (str ''!!!''))"
  by (simp add: derived_bang) (simp add: branchPattern_def str_def)

section \<open>Properties of the branch type and the pull-request title\<close>

text \<open>
  Claim C9. \<open>determineBranchType\<close> is defined on every string, and the categories
  are tried in a fixed order: the lowered text contains \<open>bug\<close>, \<open>fix\<close> or \<open>error\<close>:
  \<open>fix\<close>; otherwise it contains \<open>feature\<close>, \<open>add\<close> or \<open>implement\<close>: \<open>feat\<close>; otherwise
  it contains \<open>refactor\<close>, \<open>improve\<close> or \<open>optimize\<close>: \<open>refactor\<close>; otherwise \<open>chore\<close>.
  Containment is \<open>sublist\<close>, the contiguous-run relation of the list library.
\<close>

theorem determineBranchType_priority:
  "determineBranchType text =
     (if sublist (str ''bug'') (toLowerCase text) \<or> sublist (str ''fix'') (toLowerCase text)
         \<or> sublist (str ''error'') (toLowerCase text) then Fix
      else if sublist (str ''feature'') (toLowerCase text) \<or> sublist (str ''add'') (toLowerCase text)
         \<or> sublist (str ''implement'') (toLowerCase text) then Feat
      else if sublist (str ''refactor'') (toLowerCase text) \<or> sublist (str ''improve'') (toLowerCase text)
         \<or> sublist (str ''optimize'') (toLowerCase text) then Refactor
      else Chore)"
  by (simp add: determineBranchType_def includes_sublist)

text \<open>A text with keywords of all three categories is a \<open>fix\<close>.\<close>

lemma lower1: "toLowerCase (str ''Improve the BUG report, add tests'') = str ''improve the bug report, add tests''"
  by (simp add: str_def toLowerCase_def toLowerCaseUnit_def)

theorem determineBranchType_witness:
  "determineBranchType (str ''Improve the BUG report, add tests'') = Fix"
  unfolding determineBranchType_priority lower1 includes_sublist [symmetric]
  by (simp add: str_def)

lemma lower2: "toLowerCase (str ''Update docs'') = str ''update docs''"
  by (simp add: str_def toLowerCase_def toLowerCaseUnit_def)

lemma chore_example: "determineBranchType (str ''Update docs'') = Chore"
  unfolding determineBranchType_def lower2 by (simp add: str_def)

text \<open>
  Claim C10. When the branch type derived from the issue text is \<open>chore\<close>, the title
  of the pull request is the refactor prefix (U+267B U+FE0F, then \<open> Refactor:\<close>), a
  space, and the first 70 code units of the text (\<open>take 70\<close> of the list library),
  with \<open>...\<close> appended when the text has more than 70. The same holds for every type
  text other than \<open>fix\<close> and \<open>feat\<close>, which are the only two with a prefix of their
  own.
\<close>

theorem generatePRTitle_refactor_prefix:
  "(determineBranchType text = Chore \<longrightarrow>
      generatePRTitle text (strategyText (determineBranchType text)) =
        [9851, 65039] @ str '' Refactor: '' @ take 70 text
          @ (if 70 < length text then str ''...'' else []))
   \<and> (type \<noteq> str ''fix'' \<and> type \<noteq> str ''feat'' \<longrightarrow>
        generatePRTitle text type =
          [9851, 65039] @ str '' Refactor: '' @ take 70 text
            @ (if 70 < length text then str ''...'' else []))
   \<and> generatePRTitle text (str ''fix'') =
        [55357, 56347] @ str '' Fix: '' @ take 70 text
          @ (if 70 < length text then str ''...'' else [])
   \<and> generatePRTitle text (str ''feat'') =
        [10024] @ str '' Feature: '' @ take 70 text
          @ (if 70 < length text then str ''...'' else [])"
  by (simp add: generatePRTitle_def substring0_def str_def)

text \<open>
  A text of 79 code units and of type \<open>chore\<close>: the title holds its first 70 code
  units, which end in \<open>variables\<close>, and the three dots. A text of 11 code units is
  kept whole, without dots.
\<close>

lemma lower3:
  "toLowerCase
     (str ''Update the documentation so that the setup section lists all variables it needs'')
   = str ''update the documentation so that the setup section lists all variables it needs''"
  by (simp add: str_def toLowerCase_def toLowerCaseUnit_def)

lemma chore_long_example:
  "determineBranchType
     (str ''Update the documentation so that the setup section lists all variables it needs'')
   = Chore"
  unfolding determineBranchType_def lower3 by (simp add: str_def)

theorem generatePRTitle_witness:
  "determineBranchType
     (str ''Update the documentation so that the setup section lists all variables it needs'')
     = Chore
   \<and> length
       (str ''Update the documentation so that the setup section lists all variables it needs'')
     = 79
   \<and> generatePRTitle
       (str ''Update the documentation so that the setup section lists all variables it needs'')
       (str ''chore'')
     = [9851, 65039]
       @ str '' Refactor: Update the documentation so that the setup section lists all variables...''
   \<and> determineBranchType (str ''Update docs'') = Chore
   \<and> generatePRTitle (str ''Update docs'') (str ''chore'') =
       [9851, 65039] @ str '' Refactor: Update docs''"
  using generatePRTitle_refactor_prefix
      [of "str ''Update the documentation so that the setup section lists all variables it needs''"
          "str ''chore''"]
    generatePRTitle_refactor_prefix [of "str ''Update docs''" "str ''chore''"]
    chore_long_example chore_example
  by (simp add: str_def)

section \<open>Runs of the service methods\<close>

lemmas action_defs = ret_def throw_def await_def tryCatch_def perform_def assign_def reading_def

lemmas service_defs = updateMessage_def postMessage_def addReaction_def initializeRepo_def
  checkRepoExists_def createBranch_def commitChanges_def getCurrentBranch_def pushBranch_def

lemmas step_defs = processIssue_def processIssueCatch_def step1_def step2_def step3_def step4_def
  step5_def step6_def step7_def step8_def step9_def

lemma updateMessage_run:
  "updateMessage w channel ts text s =
     (if edits w text then Inr () else Inl (editError w text),
      s\<lparr>trace := trace s @ [ChatUpdate channel ts text]\<rparr>)"
  by (simp add: updateMessage_def edits_def editError_def action_defs split: sum.splits)

lemma postMessage_run:
  "postMessage w channel text threadTs s =
     (case posts w text of None \<Rightarrow> Inl (postError w text) | Some ts \<Rightarrow> Inr ts,
      s\<lparr>trace := trace s @ [ChatPostMessage channel text threadTs]\<rparr>)"
  by (simp add: postMessage_def posts_def postError_def action_defs split: sum.splits option.splits)

lemma addReaction_run:
  "addReaction w channel timestamp emoji s =
     (Inr (), s\<lparr>trace := trace s @ [ReactionsAdd channel timestamp emoji]\<rparr>)"
  by (simp add: addReaction_def action_defs split: sum.splits)

lemma createBranch_run:
  "git s \<Longrightarrow> createBranch w options s =
     (returns (createBranch w options), s\<lparr>trace := trace s @ calls (createBranch w options)\<rparr>)"
  by (simp add: createBranch_def returns_def calls_def ready_def action_defs Let_def
      split: sum.splits)

lemma commitChanges_run:
  "git s \<Longrightarrow> commitChanges w message files s =
     (returns (commitChanges w message files),
      s\<lparr>trace := trace s @ calls (commitChanges w message files)\<rparr>)"
  by (simp add: commitChanges_def getCurrentBranch_def returns_def calls_def ready_def
      action_defs Let_def split: sum.splits)

lemma pushBranch_run:
  "git s \<Longrightarrow> pushBranch w name s =
     (returns (pushBranch w name), s\<lparr>trace := trace s @ calls (pushBranch w name)\<rparr>)"
  by (simp add: pushBranch_def returns_def calls_def ready_def action_defs Let_def
      split: sum.splits)

lemma initializeRepo_run:
  "returns (initializeRepo w) = Inr () \<Longrightarrow> initializeRepo w s =
     (Inr (), s\<lparr>trace := trace s @ calls (initializeRepo w), git := True\<rparr>)"
  by (simp add: initializeRepo_def checkRepoExists_def returns_def calls_def ready_def
      action_defs Let_def split: sum.splits if_splits)

lemmas run_simps = updateMessage_run postMessage_run addReaction_run createBranch_run
  commitChanges_run pushBranch_run initializeRepo_run await_def tryCatch_def ret_def assign_def
  perform_def reading_def

text \<open>What the methods of the git service return, from what the git client answers.\<close>

lemma returns_initializeRepo:
  "git_checkout w InInitializeRepo = Inr () \<Longrightarrow> git_pull w InInitializeRepo = Inr ()
   \<Longrightarrow> fs_access w = Inr () \<or> (fs_mkdir w = Inr () \<and> git_clone w = Inr ())
   \<Longrightarrow> returns (initializeRepo w) = Inr ()"
  by (auto simp: returns_def initializeRepo_def checkRepoExists_def action_defs ready_def
      split: sum.splits)

lemma returns_createBranch:
  "git_checkout w InCreateBranch = Inr () \<Longrightarrow> git_pull w InCreateBranch = Inr ()
   \<Longrightarrow> git_checkoutLocalBranch w = Inr ()
   \<Longrightarrow> returns (createBranch w options) =
        Inr \<lparr>br_success = True, br_branchName = Some (generateBranchName options), br_error = None\<rparr>"
  by (auto simp: returns_def createBranch_def action_defs ready_def Let_def split: sum.splits)

lemma returns_commitChanges:
  "git_add w = Inr () \<Longrightarrow> git_status w InCommitChanges = Inr status \<Longrightarrow> st_files status \<noteq> []
   \<Longrightarrow> git_commit w = Inr hash \<Longrightarrow> git_status w InGetCurrentBranch = Inr status'
   \<Longrightarrow> returns (commitChanges w message files) =
        Inr \<lparr>cr_success = True, cr_hash = Some hash,
             cr_branch = Some (orElse (st_current status') (str ''unknown'')), cr_error = None\<rparr>"
  by (auto simp: returns_def commitChanges_def getCurrentBranch_def action_defs ready_def
      split: sum.splits)

lemma returns_pushBranch:
  "returns (pushBranch w name) =
     Inr (case (git_addConfig w, git_push w) of (Inr _, Inr _) \<Rightarrow> True | _ \<Rightarrow> False)"
  by (auto simp: returns_def pushBranch_def action_defs ready_def split: sum.splits)

lemma createBranch_result:
  "fst (createBranch w options s) = Inr br \<Longrightarrow>
     (if br_success br then br_branchName br = Some (generateBranchName options)
      else br_error br \<noteq> None)"
  by (auto simp: createBranch_def action_defs Let_def split: sum.splits if_splits)

lemma commitChanges_result:
  "fst (commitChanges w message files s) = Inr cr \<Longrightarrow> cr_success cr \<or> cr_error cr \<noteq> None"
  by (auto simp: commitChanges_def getCurrentBranch_def action_defs Let_def
      split: sum.splits if_splits)

lemma generateBranchName_nonempty: "generateBranchName options \<noteq> []"
  by (cases "opt_type options") (simp_all add: generateBranchName_def str_def)

lemmas world_evals = edits_def posts_def editError_def postError_def truthy_def orElse_def
  returns_initializeRepo returns_createBranch returns_pushBranch

section \<open>The run up to a step\<close>

text \<open>
  When a step is reached, the \<open>try\<close> block is that step, run from the state in which the
  calls before the step have been made.
\<close>

lemma reach3:
  assumes "posts w Analyzing = Some ts" "edits w Cloning" "returns (initializeRepo w) = Inr ()"
  shows "step1 w job s =
           step3 w job ts
             \<lparr>trace = trace s @ callsBeforeStep3 w job ts, git = True,
              statusMessageTs = Some ts, branchName = branchName s\<rparr>"
  using assms
  by (cases s) (simp add: step1_def step2_def await_def assign_def addReaction_run postMessage_run
      updateMessage_run initializeRepo_run callsBeforeStep3_def)

lemma reach4:
  assumes "reachesStep4 w ts fixResult"
  shows "step1 w job s =
           step4 w job ts fixResult
             \<lparr>trace = trace s @ callsBeforeStep4 w job ts, git = True,
              statusMessageTs = Some ts, branchName = branchName s\<rparr>"
  using assms
  by (simp add: reachesStep4_def reach3 step3_def await_def perform_def updateMessage_run
      callsBeforeStep4_def)

lemma reach5:
  assumes "reachesStep5 w job ts fixResult name"
  shows "step1 w job s =
           step5 w job ts fixResult (determineBranchType (job_text job)) name
             \<lparr>trace = trace s @ callsBeforeStep5 w job ts fixResult, git = True,
              statusMessageTs = Some ts, branchName = Some name\<rparr>"
proof -
  from assms have before: "reachesStep4 w ts fixResult"
    by (simp add: reachesStep5_def)
  have name: "name \<noteq> []"
    using assms
    by (auto simp: reachesStep5_def returns_def createBranch_def action_defs ready_def Let_def
        generateBranchName_nonempty split: sum.splits)
  show ?thesis
    using assms name
    by (simp add: reachesStep5_def reach4 [OF before] step4_def await_def assign_def
        updateMessage_run createBranch_run callsBeforeStep5_def branchOptionsOf_def truthy_def
        Let_def)
qed

lemma reach6:
  assumes "reachesStep6 w job ts fixResult name commitResult"
  shows "step1 w job s =
           step6 w job ts fixResult (determineBranchType (job_text job)) name commitResult
             \<lparr>trace = trace s @ callsBeforeStep6 w job ts fixResult name, git = True,
              statusMessageTs = Some ts, branchName = Some name\<rparr>"
proof -
  from assms have before: "reachesStep5 w job ts fixResult name"
    by (simp add: reachesStep6_def)
  show ?thesis
    using assms
    by (simp add: reachesStep6_def reach5 [OF before] step5_def await_def updateMessage_run
        commitChanges_run callsBeforeStep6_def commitMessageOf_def)
qed

lemma reach7:
  assumes "reachesStep7 w job ts fixResult name commitResult"
  shows "step1 w job s =
           step7 w job ts fixResult (determineBranchType (job_text job)) name commitResult
             \<lparr>trace = trace s @ callsBeforeStep7 w job ts fixResult name commitResult,
              git = True, statusMessageTs = Some ts, branchName = Some name\<rparr>"
proof -
  from assms have before: "reachesStep6 w job ts fixResult name commitResult"
    by (simp add: reachesStep7_def)
  show ?thesis
    using assms
    by (simp add: reachesStep7_def reach6 [OF before] step6_def await_def updateMessage_run
        pushBranch_run callsBeforeStep7_def hash7_def)
qed

lemma processIssue_returns:
  "step1 w job (s\<lparr>statusMessageTs := None, branchName := None\<rparr>) = (Inr r, s')
   \<Longrightarrow> processIssue w job s = (Inr r, s')"
  by (simp add: processIssue_def await_def assign_def tryCatch_def)

lemma processIssue_throws:
  "step1 w job (s\<lparr>statusMessageTs := None, branchName := None\<rparr>) = (Inl error, s1)
   \<Longrightarrow> processIssue w job s = processIssueCatch w job error s1"
  by (simp add: processIssue_def await_def assign_def tryCatch_def)

section \<open>Rules for the calls and the results of an action\<close>

lemma emits_newEvents: "emits P m \<Longrightarrow> list_all P (newEvents s (snd (m s)))"
  by (auto simp: emits_def newEvents_def dest!: spec [of _ s])

lemma emits_ret: "emits P (ret x)"
  by (simp add: emits_def ret_def)

lemma emits_throw: "emits P (throw e)"
  by (simp add: emits_def throw_def)

lemma emits_assign: "(\<And>s. trace (f s) = trace s) \<Longrightarrow> emits P (assign f)"
  by (simp add: emits_def assign_def)

lemma emits_perform: "P ev \<Longrightarrow> emits P (perform ev r)"
  by (simp add: emits_def perform_def)

lemma emits_reading: "(\<And>v. emits P (f v)) \<Longrightarrow> emits P (reading g f)"
  by (simp add: emits_def reading_def)

text \<open>The continuation of an \<open>await\<close> only runs on a value that the awaited action returns.\<close>

lemma emits_await:
  assumes m: "emits P m"
    and f: "\<And>x. \<exists>s. fst (m s) = Inr x \<Longrightarrow> emits P (f x)"
  shows "emits P (await m f)"
  unfolding emits_def
proof
  fix s
  obtain r s1 where run: "m s = (r, s1)" by (cases "m s")
  from m obtain evs1 where evs1: "trace s1 = trace s @ evs1" "list_all P evs1"
    using run by (auto simp: emits_def dest!: spec [of _ s])
  show "\<exists>evs. trace (snd (await m f s)) = trace s @ evs \<and> list_all P evs"
  proof (cases r)
    case (Inl e)
    with run evs1 show ?thesis by (simp add: await_def)
  next
    case (Inr x)
    with run have "\<exists>s. fst (m s) = Inr x" by (auto intro: exI [of _ s])
    then have "emits P (f x)" by (rule f)
    then obtain evs2 where "trace (snd (f x s1)) = trace s1 @ evs2" "list_all P evs2"
      by (auto simp: emits_def dest!: spec [of _ s1])
    with run Inr evs1 show ?thesis by (simp add: await_def)
  qed
qed

lemma emits_tryCatch:
  assumes m: "emits P m"
    and h: "\<And>e. emits P (h e)"
  shows "emits P (tryCatch m h)"
  unfolding emits_def
proof
  fix s
  obtain r s1 where run: "m s = (r, s1)" by (cases "m s")
  from m obtain evs1 where evs1: "trace s1 = trace s @ evs1" "list_all P evs1"
    using run by (auto simp: emits_def dest!: spec [of _ s])
  show "\<exists>evs. trace (snd (tryCatch m h s)) = trace s @ evs \<and> list_all P evs"
  proof (cases r)
    case (Inr x)
    with run evs1 show ?thesis by (simp add: tryCatch_def)
  next
    case (Inl e)
    from h [of e] obtain evs2 where "trace (snd (h e s1)) = trace s1 @ evs2" "list_all P evs2"
      by (auto simp: emits_def dest!: spec [of _ s1])
    with run Inl evs1 show ?thesis by (simp add: tryCatch_def)
  qed
qed

lemma emits_if: "(c \<Longrightarrow> emits P a) \<Longrightarrow> (\<not> c \<Longrightarrow> emits P b) \<Longrightarrow> emits P (if c then a else b)"
  by simp

lemma emits_case_option:
  "(x = None \<Longrightarrow> emits P a) \<Longrightarrow> (\<And>v. x = Some v \<Longrightarrow> emits P (f v))
   \<Longrightarrow> emits P (case x of None \<Rightarrow> a | Some v \<Rightarrow> f v)"
  by (cases x) simp_all

lemma emits_Let: "emits P (f x) \<Longrightarrow> emits P (Let x f)"
  by simp

lemmas emits_rules = emits_ret emits_throw emits_assign emits_perform emits_reading emits_await
  emits_tryCatch emits_if emits_case_option emits_Let

lemma perform_result [simp]: "fst (perform ev r s) = r"
  by (simp add: perform_def)

lemma yields_ret: "Q x \<Longrightarrow> yields Q (ret x)"
  by (simp add: yields_def ret_def)

lemma yields_throw: "yields Q (throw e)"
  by (simp add: yields_def throw_def)

lemma yields_reading: "(\<And>v. yields Q (f v)) \<Longrightarrow> yields Q (reading g f)"
  by (simp add: yields_def reading_def)

lemma yields_await:
  assumes "\<And>x. \<exists>s. fst (m s) = Inr x \<Longrightarrow> yields Q (f x)"
  shows "yields Q (await m f)"
  unfolding yields_def
proof (intro allI impI)
  fix s y s'
  assume run: "await m f s = (Inr y, s')"
  then obtain x s1 where m: "m s = (Inr x, s1)" and f: "f x s1 = (Inr y, s')"
    by (auto simp: await_def split: prod.splits sum.splits)
  from m have "\<exists>s. fst (m s) = Inr x" by (auto intro: exI [of _ s])
  then have "yields Q (f x)" by (rule assms)
  with f show "Q y" by (auto simp: yields_def)
qed

lemma yields_tryCatch:
  assumes "yields Q m" and "\<And>e. yields Q (h e)"
  shows "yields Q (tryCatch m h)"
  using assms
  by (fastforce simp: yields_def tryCatch_def split: prod.splits sum.splits)

lemma yields_if: "(c \<Longrightarrow> yields Q a) \<Longrightarrow> (\<not> c \<Longrightarrow> yields Q b) \<Longrightarrow> yields Q (if c then a else b)"
  by simp

lemma yields_case_option:
  "(x = None \<Longrightarrow> yields Q a) \<Longrightarrow> (\<And>v. x = Some v \<Longrightarrow> yields Q (f v))
   \<Longrightarrow> yields Q (case x of None \<Rightarrow> a | Some v \<Rightarrow> f v)"
  by (cases x) simp_all

lemma yields_Let: "yields Q (f x) \<Longrightarrow> yields Q (Let x f)"
  by simp

lemmas yields_rules = yields_ret yields_throw yields_reading yields_await yields_tryCatch
  yields_if yields_case_option yields_Let

lemma keeps_ret: "keeps f (ret x)"
  by (simp add: keeps_def ret_def)

lemma keeps_throw: "keeps f (throw e)"
  by (simp add: keeps_def throw_def)

lemma keeps_assign: "(\<And>s. f (g s) = f s) \<Longrightarrow> keeps f (assign g)"
  by (simp add: keeps_def assign_def)

lemma keeps_perform: "(\<And>s t. f (s\<lparr>trace := t\<rparr>) = f s) \<Longrightarrow> keeps f (perform ev r)"
  by (simp add: keeps_def perform_def)

lemma keeps_reading: "(\<And>v. keeps f (k v)) \<Longrightarrow> keeps f (reading g k)"
  by (simp add: keeps_def reading_def)

lemma keeps_await: "keeps f m \<Longrightarrow> (\<And>x. keeps f (k x)) \<Longrightarrow> keeps f (await m k)"
  by (auto simp: keeps_def await_def split: prod.splits sum.splits)
    (metis snd_conv)+

lemma keeps_tryCatch: "keeps f m \<Longrightarrow> (\<And>e. keeps f (h e)) \<Longrightarrow> keeps f (tryCatch m h)"
  by (auto simp: keeps_def tryCatch_def split: prod.splits sum.splits)
    (metis snd_conv)+

lemma keeps_if: "(c \<Longrightarrow> keeps f a) \<Longrightarrow> (\<not> c \<Longrightarrow> keeps f b) \<Longrightarrow> keeps f (if c then a else b)"
  by simp

lemma keeps_case_option:
  "(x = None \<Longrightarrow> keeps f a) \<Longrightarrow> (\<And>v. x = Some v \<Longrightarrow> keeps f (k v))
   \<Longrightarrow> keeps f (case x of None \<Rightarrow> a | Some v \<Rightarrow> k v)"
  by (cases x) simp_all

lemma keeps_Let: "keeps f (k x) \<Longrightarrow> keeps f (Let x k)"
  by simp

lemmas keeps_rules = keeps_ret keeps_throw keeps_assign keeps_perform keeps_reading keeps_await
  keeps_tryCatch keeps_if keeps_case_option keeps_Let

text \<open>Four properties of every run of \<open>processIssue\<close>, proved along its code.\<close>

lemma step2_keeps_statusMessageTs: "keeps statusMessageTs (step2 w job ts)"
  unfolding step2_def step3_def step4_def step5_def step6_def step7_def step8_def step9_def
    service_defs
  by (intro keeps_rules) simp_all


lemma processIssue_yields:
  assumes "reportsErrorText w"
  shows "yields failedWithError (processIssue w job)"
  unfolding step_defs
  by (intro yields_rules)
    (use assms in \<open>auto simp: failedWithError_def reportsErrorText_def truthy_def
      generateBranchName_nonempty dest: createBranch_result commitChanges_result
      split: if_splits\<close>)

lemma processIssue_stages_fix_only: "emits (stagesFixOnly w) (processIssue w job)"
  unfolding step_defs service_defs
  by (intro emits_rules) (auto simp: stagesFixOnly_def)

lemma processIssue_no_vcs_write:
  assumes "analyzeAndFix w = Inr fixResult" "fr_filesChanged fixResult = []"
  shows "emits (\<lambda>ev. \<not> isVcsWrite ev) (processIssue w job)"
  unfolding step_defs service_defs
  by (intro emits_rules) (use assms in \<open>auto simp: isVcsWrite_def\<close>)

lemma commitChanges_staging:
  "files \<noteq> [] \<Longrightarrow> filter isStaging (calls (commitChanges w message files)) = [GitAdd files]"
  by (auto simp: calls_def ready_def commitChanges_def getCurrentBranch_def action_defs
      isStaging_def split: sum.splits)

lemma commitChanges_stage_all:
  "emits (\<lambda>ev. ev = GitAddAll \<longrightarrow> files = []) (commitChanges w message files)"
  unfolding service_defs
  by (intro emits_rules) auto

section \<open>The example worlds\<close>

lemma world0_fields:
  "baseBranch world0 = str ''main''"
  "repoPath world0 = str ''/tmp/repo''"
  "chat_postMessage world0 text =
     Inr \<lparr>post_ok = True, post_ts = Some (str ''100.2''), post_error = None\<rparr>"
  "chat_update world0 text = Inr \<lparr>upd_ok = True, upd_error = None\<rparr>"
  "reactions_add world0 emoji = Inr ()"
  "fs_access world0 = Inr ()"
  "fs_mkdir world0 = Inr ()"
  "git_clone world0 = Inr ()"
  "git_checkout world0 c = Inr ()"
  "git_pull world0 c = Inr ()"
  "git_deleteLocalBranch world0 = Inl (str ''branch not found'')"
  "git_checkoutLocalBranch world0 = Inr ()"
  "git_add world0 = Inr ()"
  "git_status world0 sc =
     Inr \<lparr>st_files = [str ''README.md''], st_current = Some (str ''fix/fix-the-typo'')\<rparr>"
  "git_commit world0 = Inr (str ''0123456789abcdef'')"
  "git_addConfig world0 = Inr ()"
  "git_push world0 = Inr ()"
  "analyzeAndFix world0 = Inr fix0"
  "formatPRDescription world0 = Inr (str ''body'')"
  "createPullRequest world0 =
     Inr \<lparr>pr_success = True, pr_prNumber = Some 7, pr_prUrl = Some (str ''https://pr/7''),
          pr_error = None\<rparr>"
  "addLabels world0 = Inr ()"
  "waitForDeployment world0 =
     Inr \<lparr>dr_success = True, dr_url = Some (str ''https://preview''),
          dr_deploymentId = Some (str ''d1''), dr_status = Some READY, dr_error = None\<rparr>"
  by (simp_all add: world0_def)

lemma str_nonempty [simp]: "str (c # cs) \<noteq> []"
  by (simp add: str_def)

lemma fix0_fields:
  "fr_success fix0" "fr_filesChanged fix0 = [str ''README.md'']" "fr_error fix0 = None"
  by (simp_all add: fix0_def)

lemma commit0_fields:
  "cr_success commit0" "cr_hash commit0 = Some (str ''0123456789abcdef'')"
  by (simp_all add: commit0_def)

lemma fixNothing_fields:
  "fr_success fixNothing" "fr_filesChanged fixNothing = []"
  "fr_analysis fixNothing = str ''already fixed''"
  by (simp_all add: fixNothing_def)

lemma returns_commit0:
  "git_add w = Inr () \<Longrightarrow> git_commit w = Inr (str ''0123456789abcdef'')
   \<Longrightarrow> git_status w = git_status world0
   \<Longrightarrow> returns (commitChanges w message files) = Inr commit0"
  by (simp add: commit0_def
      returns_commitChanges [where status = "\<lparr>st_files = [str ''README.md''], st_current = Some (str ''fix/fix-the-typo'')\<rparr>"]
      world0_fields orElse_def truthy_def)

lemmas reach_defs = reachesStep7_def reachesStep6_def reachesStep5_def reachesStep4_def

lemmas happy_evals = world_evals returns_commit0 world0_fields fix0_fields commit0_fields
  name0_def derivedBranchName_def hash7_def

lemmas full_run = step_defs run_simps world_evals returns_commit0 world0_fields ready_def Let_def
  generateBranchName_nonempty fix0_fields commit0_fields caughtResult_def throw_def

text \<open>
  In \<open>world0\<close> the job runs through all nine steps (scenario A of the specification):
  the result has status \<open>completed\<close>, the branch name, the URL of the pull request and
  the URL of the preview.
\<close>

lemma world0_result:
  "fst (processIssue world0 job0 ready) =
     Inr \<lparr>jr_jobId = job_id job0, jr_status = Completed,
          jr_branchName = Some (generateBranchName (branchOptionsOf (job_text job0))),
          jr_prUrl = Some (str ''https://pr/7''), jr_previewUrl = Some (str ''https://preview''),
          jr_result = Some fix0,
          jr_deployment =
            Some \<lparr>dr_success = True, dr_url = Some (str ''https://preview''),
                  dr_deploymentId = Some (str ''d1''), dr_status = Some READY, dr_error = None\<rparr>,
          jr_error = None\<rparr>"
  by (simp add: full_run branchOptionsOf_def)

section \<open>The catch block\<close>

text \<open>
  Claim C1, as amended. Let the \<open>try\<close> block of \<open>processIssue\<close> throw \<open>error\<close>, at any
  of its steps, and leave the state \<open>s1\<close>.
  \<^item> When no status message exists (\<open>statusMessageTs\<close> is unset: the first post
    failed), the \<open>catch\<close> block makes no Slack call and \<open>processIssue\<close> returns the result
    with status \<open>failed\<close> and the text of the exception.
  \<^item> When the status message exists and its edit returns, that one edit is the only
    call, and \<open>processIssue\<close> returns the same result.
  \<^item> When the edit throws and the post of a new message returns, the edit and that
    one post are the only calls, and \<open>processIssue\<close> returns the same result.

  Nothing is stated for the run in which the edit and the post of the new message
  both throw.
\<close>

theorem processIssue_catch:
  assumes "step1 w job (s\<lparr>statusMessageTs := None, branchName := None\<rparr>) = (Inl error, s1)"
  shows "(truthy (statusMessageTs s1) = None \<longrightarrow>
            processIssue w job s = (Inr (caughtResult job error), s1))
       \<and> (\<forall>ts. truthy (statusMessageTs s1) = Some ts
                \<and> edits w (SystemError error (branchName s1)) \<longrightarrow>
            processIssue w job s =
              (Inr (caughtResult job error),
               s1\<lparr>trace := trace s1
                    @ [ChatUpdate (job_channel job) ts (SystemError error (branchName s1))]\<rparr>))
       \<and> (\<forall>ts. truthy (statusMessageTs s1) = Some ts
                \<and> \<not> edits w (SystemError error (branchName s1))
                \<and> posts w (CriticalError error) \<noteq> None \<longrightarrow>
            processIssue w job s =
              (Inr (caughtResult job error),
               s1\<lparr>trace := trace s1
                    @ [ChatUpdate (job_channel job) ts (SystemError error (branchName s1)),
                       ChatPostMessage (job_channel job) (CriticalError error)
                         (job_threadTs job)]\<rparr>))"
  by (auto simp: processIssue_throws [OF assms] processIssueCatch_def caughtResult_def
      run_simps)

text \<open>
  The status message exists when the \<open>try\<close> block throws exactly when the first post
  has returned: the variable is assigned there and nowhere else.
\<close>

lemma posts_truthy: "posts w text = Some ts \<Longrightarrow> truthy (Some ts) = Some ts"
  by (auto simp: posts_def truthy_def split: sum.splits if_splits option.splits)

lemma status_message_iff_posted:
  assumes "step1 w job (s\<lparr>statusMessageTs := None, branchName := None\<rparr>) = (Inl error, s1)"
  shows "truthy (statusMessageTs s1) = posts w Analyzing"
proof (cases "posts w Analyzing")
  case None
  with assms show ?thesis
    by (auto simp: step1_def await_def addReaction_run postMessage_run truthy_def)
next
  case (Some ts)
  let ?s2 = "\<lparr>trace = trace s @ [ReactionsAdd (job_channel job) (job_threadTs job) (str ''eyes''),
                 ChatPostMessage (job_channel job) Analyzing (job_threadTs job)],
              git = git s, statusMessageTs = Some ts, branchName = None\<rparr>"
  from Some assms have "step2 w job ts ?s2 = (Inl error, s1)"
    by (cases s) (simp add: step1_def await_def assign_def addReaction_run postMessage_run)
  moreover have "statusMessageTs (snd (step2 w job ts ?s2)) = statusMessageTs ?s2"
    using step2_keeps_statusMessageTs [of w job ts] by (simp add: keeps_def)
  ultimately have "statusMessageTs s1 = Some ts"
    by simp
  with Some posts_truthy [OF Some] show ?thesis
    by simp
qed

text \<open>
  A run of the third kind: the checkout in \<open>initializeRepo\<close> throws, the edit that
  reports it throws, the new message is posted.
\<close>

lemma worldCheckoutFails_try:
  "step1 worldCheckoutFails job0 (ready\<lparr>statusMessageTs := None, branchName := None\<rparr>) =
     (Inl (str ''pathspec main did not match''),
      \<lparr>trace =
         [ReactionsAdd (str ''C1'') (str ''100.1'') (str ''eyes''),
          ChatPostMessage (str ''C1'') Analyzing (str ''100.1''),
          ChatUpdate (str ''C1'') (str ''100.2'') Cloning,
          FsAccess, GitCheckout (str ''main'')],
       git = True, statusMessageTs = Some (str ''100.2''), branchName = None\<rparr>)"
  by (simp add: step1_def step2_def addReaction_run postMessage_run updateMessage_run
      initializeRepo_def checkRepoExists_def action_defs world_evals worldCheckoutFails_def
      world0_fields ready_def job0_def)

theorem processIssue_catch_witness:
  "processIssue worldCheckoutFails job0 ready =
     (Inr (caughtResult job0 (str ''pathspec main did not match'')),
      \<lparr>trace =
         [ReactionsAdd (str ''C1'') (str ''100.1'') (str ''eyes''),
          ChatPostMessage (str ''C1'') Analyzing (str ''100.1''),
          ChatUpdate (str ''C1'') (str ''100.2'') Cloning,
          FsAccess, GitCheckout (str ''main''),
          ChatUpdate (str ''C1'') (str ''100.2'')
            (SystemError (str ''pathspec main did not match'') None),
          ChatPostMessage (str ''C1'') (CriticalError (str ''pathspec main did not match''))
            (str ''100.1'')],
       git = True, statusMessageTs = Some (str ''100.2''), branchName = None\<rparr>)"
  using processIssue_catch [OF worldCheckoutFails_try]
  by (simp add: world_evals worldCheckoutFails_def world0_fields job0_def)

text \<open>
  Two runs show that the claim needs its amendments. When the first post throws,
  \<open>processIssue\<close> returns the failed result and attempts no edit: the reaction and the
  post are its only calls. When the first post returns and every later Slack call
  throws, the post of the new message in the \<open>catch\<close> block throws too, and
  \<open>processIssue\<close> throws to its caller.
\<close>

theorem processIssue_catch_counterexample:
  "processIssue worldNoStatusMessage job0 ready =
     (Inr (caughtResult job0 slackDown),
      \<lparr>trace =
         [ReactionsAdd (str ''C1'') (str ''100.1'') (str ''eyes''),
          ChatPostMessage (str ''C1'') Analyzing (str ''100.1'')],
       git = True, statusMessageTs = None, branchName = None\<rparr>)
   \<and> fst (processIssue worldSlackDown job0 ready) = Inl slackDown"
  by (simp add: step_defs run_simps world_evals worldNoStatusMessage_def worldSlackDown_def
      world0_fields ready_def job0_def caughtResult_def throw_def)

section \<open>Failed results and their error text\<close>

text \<open>
  In a world where a fix that reports failure carries an error text, every result
  that \<open>processIssue\<close> returns with status \<open>failed\<close>, from whichever exit, has its error
  field defined: the exits for a failed branch, a failed commit and a failed push and
  the \<open>catch\<close> block always set it.
\<close>

lemma failed_result_has_error:
  assumes "reportsErrorText w"
    and "processIssue w job s = (Inr result, s')"
    and "jr_status result = Failed"
  shows "jr_error result \<noteq> None"
  using processIssue_yields [OF assms(1), of job] assms(2,3)
  by (auto simp: yields_def failedWithError_def)

text \<open>Scenario B of the specification: the agent fails with \<open>cannot determine intent\<close>.\<close>

lemma worldGenerationFails_result:
  "fst (processIssue (worldGenerationFails error) job0 ready) =
     Inr \<lparr>jr_jobId = job_id job0, jr_status = Failed, jr_branchName = None,
          jr_prUrl = None, jr_previewUrl = None, jr_result = None,
          jr_deployment = None, jr_error = error\<rparr>"
  by (simp add: full_run worldGenerationFails_def fixFailed_def)

lemma failed_result_has_error_example:
  "reportsErrorText (worldGenerationFails (Some (str ''cannot determine intent'')))
   \<and> jr_status (projr (fst (processIssue
        (worldGenerationFails (Some (str ''cannot determine intent''))) job0 ready))) = Failed
   \<and> jr_error (projr (fst (processIssue
        (worldGenerationFails (Some (str ''cannot determine intent''))) job0 ready))) \<noteq> None"
proof -
  let ?w = "worldGenerationFails (Some (str ''cannot determine intent''))"
  let ?run = "processIssue ?w job0 ready"
  have reports: "reportsErrorText ?w"
    by (simp add: reportsErrorText_def worldGenerationFails_def fixFailed_def)
  have result: "fst ?run = Inr (projr (fst ?run))"
    by (simp add: worldGenerationFails_result)
  then have run: "?run = (Inr (projr (fst ?run)), snd ?run)"
    by (metis prod.collapse)
  have failed: "jr_status (projr (fst ?run)) = Failed"
    by (simp add: worldGenerationFails_result)
  from failed_result_has_error [OF reports run failed]
  have "jr_error (projr (fst ?run)) \<noteq> None" .
  with reports failed show ?thesis
    by (intro conjI)
qed

text \<open>
  Claim C2 asks that every result with status \<open>failed\<close> has an error text. The code
  breaks it at the exit for a failed generation, when the fix reports failure without
  an error text: the edit of the status message on that exit puts
  \<open>Unknown error occurred\<close> in the place of the missing text, the result that is
  returned copies the missing text as it is and has no error field.
\<close>

theorem generation_failure_without_error:
  "analyzeAndFix (worldGenerationFails None) = Inr (fixFailed None)
   \<and> fr_success (fixFailed None) = False \<and> fr_error (fixFailed None) = None
   \<and> processIssue (worldGenerationFails None) job0 ready =
       (Inr \<lparr>jr_jobId = job_id job0, jr_status = Failed, jr_branchName = None,
             jr_prUrl = None, jr_previewUrl = None, jr_result = None,
             jr_deployment = None, jr_error = None\<rparr>,
        \<lparr>trace =
           callsBeforeStep4 (worldGenerationFails None) job0 (str ''100.2'')
           @ [ChatUpdate (job_channel job0) (str ''100.2'')
                (AnalysisFailed (str ''Unknown error occurred''))],
         git = True, statusMessageTs = Some (str ''100.2''), branchName = None\<rparr>)"
  by (simp add: full_run worldGenerationFails_def fixFailed_def callsBeforeStep4_def
      callsBeforeStep3_def)

section \<open>A fix without changed files\<close>

text \<open>
  Claim C4, as amended. Let the agent return a fix with \<open>success\<close> and an empty list of
  changed files. Then no call that creates a branch, commits, pushes or opens a pull
  request is made, whatever else happens in the run. When moreover the run gets to the
  agent (the status message is posted, its edits return, the repository is
  initialised) and the edit that reports the outcome returns, \<open>processIssue\<close> returns the
  result with status \<open>completed\<close> that carries the fix and has no branch name, no
  pull-request URL, no preview URL.
\<close>

theorem no_changes_result:
  assumes "analyzeAndFix w = Inr fixResult"
    and "fr_success fixResult"
    and "fr_filesChanged fixResult = []"
  shows "(posts w Analyzing = Some ts \<and> edits w Cloning \<and> returns (initializeRepo w) = Inr ()
          \<and> edits w RunningAgent \<and> edits w (NoChanges (fr_analysis fixResult)) \<longrightarrow>
            fst (processIssue w job s) =
              Inr \<lparr>jr_jobId = job_id job, jr_status = Completed, jr_branchName = None,
                   jr_prUrl = None, jr_previewUrl = None, jr_result = Some fixResult,
                   jr_deployment = None, jr_error = None\<rparr>)
       \<and> \<not> list_ex isVcsWrite (newEvents s (snd (processIssue w job s)))"
proof (intro conjI impI)
  assume reach: "posts w Analyzing = Some ts \<and> edits w Cloning
    \<and> returns (initializeRepo w) = Inr () \<and> edits w RunningAgent
    \<and> edits w (NoChanges (fr_analysis fixResult))"
  then have "\<exists>s'. step1 w job (s\<lparr>statusMessageTs := None, branchName := None\<rparr>) =
           (Inr \<lparr>jr_jobId = job_id job, jr_status = Completed, jr_branchName = None,
                jr_prUrl = None, jr_previewUrl = None, jr_result = Some fixResult,
                jr_deployment = None, jr_error = None\<rparr>, s')"
    using assms
    by (simp add: reach3 step3_def await_def ret_def perform_def updateMessage_run)
  then show "fst (processIssue w job s) =
              Inr \<lparr>jr_jobId = job_id job, jr_status = Completed, jr_branchName = None,
                   jr_prUrl = None, jr_previewUrl = None, jr_result = Some fixResult,
                   jr_deployment = None, jr_error = None\<rparr>"
    by (auto dest: processIssue_returns)
next
  have "list_all (\<lambda>ev. \<not> isVcsWrite ev) (newEvents s (snd (processIssue w job s)))"
    by (rule emits_newEvents) (rule processIssue_no_vcs_write [OF assms(1,3)])
  then show "\<not> list_ex isVcsWrite (newEvents s (snd (processIssue w job s)))"
    by (simp add: list_all_iff list_ex_iff)
qed

theorem no_changes_witness:
  "fst (processIssue worldNoChanges job0 ready) =
     Inr \<lparr>jr_jobId = job_id job0, jr_status = Completed, jr_branchName = None,
          jr_prUrl = None, jr_previewUrl = None, jr_result = Some fixNothing,
          jr_deployment = None, jr_error = None\<rparr>
   \<and> \<not> list_ex isVcsWrite (newEvents ready (snd (processIssue worldNoChanges job0 ready)))"
proof -
  have "analyzeAndFix worldNoChanges = Inr fixNothing"
    by (simp add: worldNoChanges_def)
  from no_changes_result [OF this fixNothing_fields(1,2), of "str ''100.2''" job0 ready]
  show ?thesis
    by (simp add: world_evals worldNoChanges_def world0_fields)
qed

text \<open>
  When the edit that reports the outcome throws, the exception is caught and the same
  fix ends in a result with status \<open>failed\<close>.
\<close>

theorem no_changes_counterexample:
  "analyzeAndFix worldNoChangesSilently = Inr fixNothing
   \<and> fr_success fixNothing \<and> fr_filesChanged fixNothing = []
   \<and> fst (processIssue worldNoChangesSilently job0 ready) = Inr (caughtResult job0 slackDown)
   \<and> jr_status (caughtResult job0 slackDown) = Failed"
  by (simp add: full_run fixNothing_fields worldNoChangesSilently_def worldNoChanges_def)

section \<open>A pull request that fails\<close>

text \<open>
  Claim C5, as amended. Let the run get to STEP 7 (the branch \<open>name\<close> is created,
  committed and pushed), let the pull request return \<open>prResult\<close> without success or
  without a URL, and let the edit that reports it return. Then \<open>processIssue\<close> returns
  the result with status \<open>completed\<close>, the branch name, the fix, no pull-request URL,
  and as its error field the error field of \<open>prResult\<close>, as it is.
\<close>

theorem pr_failure_result:
  assumes "reachesStep7 w job ts fixResult name commitResult"
    and "edits w CreatingPR"
    and "formatPRDescription w = Inr prBody"
    and "createPullRequest w = Inr prResult"
    and "\<not> pr_success prResult \<or> truthy (pr_prUrl prResult) = None"
    and "edits w (PRFailed (pr_error prResult) name)"
  shows "fst (processIssue w job s) =
           Inr \<lparr>jr_jobId = job_id job, jr_status = Completed, jr_branchName = Some name,
                jr_prUrl = None, jr_previewUrl = None, jr_result = Some fixResult,
                jr_deployment = None, jr_error = pr_error prResult\<rparr>"
proof -
  have "\<exists>s'. step1 w job (s\<lparr>statusMessageTs := None, branchName := None\<rparr>) =
           (Inr \<lparr>jr_jobId = job_id job, jr_status = Completed, jr_branchName = Some name,
                jr_prUrl = None, jr_previewUrl = None, jr_result = Some fixResult,
                jr_deployment = None, jr_error = pr_error prResult\<rparr>, s')"
    using assms(2-6)
    by (auto simp: reach7 [OF assms(1)] step7_def await_def ret_def perform_def
        updateMessage_run Let_def)
  then show ?thesis
    by (auto dest: processIssue_returns)
qed

lemma worldPRFails_step7: "reachesStep7 worldPRFails job0 (str ''100.2'') fix0 name0 commit0"
  by (simp add: reach_defs happy_evals worldPRFails_def)

theorem pr_failure_witness:
  "fst (processIssue worldPRFails job0 ready) =
     Inr \<lparr>jr_jobId = str ''job-1'', jr_status = Completed, jr_branchName = Some name0,
          jr_prUrl = None, jr_previewUrl = None, jr_result = Some fix0,
          jr_deployment = None, jr_error = Some (str ''Validation Failed'')\<rparr>"
proof -
  have "edits worldPRFails CreatingPR"
    and "formatPRDescription worldPRFails = Inr (str ''body'')"
    and "createPullRequest worldPRFails =
           Inr \<lparr>pr_success = False, pr_prNumber = None, pr_prUrl = None,
                pr_error = Some (str ''Validation Failed'')\<rparr>"
    by (simp_all add: edits_def worldPRFails_def world0_fields)
  from pr_failure_result [OF worldPRFails_step7 this] show ?thesis
    by (simp add: job0_def edits_def worldPRFails_def world0_fields)
qed

text \<open>
  A pull request that returns success without a URL and without an error text ends in
  a result with status \<open>completed\<close> and no error field. A pull request that fails, when
  the edit that reports it throws, ends in a result with status \<open>failed\<close>.
\<close>

theorem pr_failure_counterexample:
  "fst (processIssue worldPRWithoutUrl job0 ready) =
     Inr \<lparr>jr_jobId = job_id job0, jr_status = Completed,
          jr_branchName = Some (generateBranchName (branchOptionsOf (job_text job0))),
          jr_prUrl = None, jr_previewUrl = None, jr_result = Some fix0,
          jr_deployment = None, jr_error = None\<rparr>
   \<and> fst (processIssue worldPRFailsSilently job0 ready) = Inr (caughtResult job0 slackDown)"
  by (simp add: full_run worldPRWithoutUrl_def worldPRFailsSilently_def worldPRFails_def
      branchOptionsOf_def)

section \<open>A push that fails\<close>

text \<open>
  Claim C6, as amended. Let the run get to STEP 6 (the agent returns a fix with at
  least one changed file, the branch is created, the commit succeeds), let \<open>pushBranch\<close>
  return \<open>false\<close>, and let the edit that reports it return. Then \<open>processIssue\<close> returns
  the result with status \<open>failed\<close>, the error text \<open>Failed to push to remote\<close>, and the
  fix in its result field.
\<close>

theorem push_failure_result:
  assumes "reachesStep6 w job ts fixResult name commitResult"
    and "edits w (Pushing name (hash7 commitResult))"
    and "returns (pushBranch w name) = Inr False"
    and "edits w PushFailed"
  shows "fst (processIssue w job s) =
           Inr \<lparr>jr_jobId = job_id job, jr_status = Failed, jr_branchName = None,
                jr_prUrl = None, jr_previewUrl = None, jr_result = Some fixResult,
                jr_deployment = None, jr_error = Some (str ''Failed to push to remote'')\<rparr>"
proof -
  have "\<exists>s'. step1 w job (s\<lparr>statusMessageTs := None, branchName := None\<rparr>) =
           (Inr \<lparr>jr_jobId = job_id job, jr_status = Failed, jr_branchName = None,
                jr_prUrl = None, jr_previewUrl = None, jr_result = Some fixResult,
                jr_deployment = None, jr_error = Some (str ''Failed to push to remote'')\<rparr>, s')"
    using assms(2-4)
    by (simp add: reach6 [OF assms(1)] step6_def await_def ret_def updateMessage_run
        pushBranch_run hash7_def)
  then show ?thesis
    by (auto dest: processIssue_returns)
qed

lemma worldPushFails_step6: "reachesStep6 worldPushFails job0 (str ''100.2'') fix0 name0 commit0"
  by (simp add: reach_defs happy_evals worldPushFails_def)

theorem push_failure_witness:
  "fst (processIssue worldPushFails job0 ready) =
     Inr \<lparr>jr_jobId = str ''job-1'', jr_status = Failed, jr_branchName = None,
          jr_prUrl = None, jr_previewUrl = None, jr_result = Some fix0,
          jr_deployment = None, jr_error = Some (str ''Failed to push to remote'')\<rparr>
   \<and> sublist (str ''push'') (str ''Failed to push to remote'')"
proof -
  have "edits worldPushFails (Pushing name0 (hash7 commit0))"
    and "returns (pushBranch worldPushFails name0) = Inr False"
    and "edits worldPushFails PushFailed"
    by (simp_all add: edits_def returns_pushBranch worldPushFails_def world0_fields)
  from push_failure_result [OF worldPushFails_step6 this]
  have "fst (processIssue worldPushFails job0 ready) =
     Inr \<lparr>jr_jobId = str ''job-1'', jr_status = Failed, jr_branchName = None,
          jr_prUrl = None, jr_previewUrl = None, jr_result = Some fix0,
          jr_deployment = None, jr_error = Some (str ''Failed to push to remote'')\<rparr>"
    by (simp add: job0_def)
  moreover have "sublist (str ''push'') (str ''Failed to push to remote'')"
    unfolding includes_sublist [symmetric] by (simp add: str_def)
  ultimately show ?thesis
    by (intro conjI)
qed

text \<open>
  When the edit that reports the failed push throws, the exception is caught: the
  result has status \<open>failed\<close>, but its error text is that of the exception and it
  carries no fix.
\<close>

theorem push_failure_counterexample:
  "fst (processIssue worldPushFailsSilently job0 ready) =
     Inr \<lparr>jr_jobId = job_id job0, jr_status = Failed, jr_branchName = None,
          jr_prUrl = None, jr_previewUrl = None, jr_result = None,
          jr_deployment = None, jr_error = Some slackDown\<rparr>
   \<and> \<not> sublist (str ''push'') slackDown"
proof -
  have "fst (processIssue worldPushFailsSilently job0 ready) =
     Inr \<lparr>jr_jobId = job_id job0, jr_status = Failed, jr_branchName = None,
          jr_prUrl = None, jr_previewUrl = None, jr_result = None,
          jr_deployment = None, jr_error = Some slackDown\<rparr>"
    by (simp add: full_run worldPushFailsSilently_def worldPushFails_def)
  moreover have "\<not> sublist (str ''push'') slackDown"
    unfolding includes_sublist [symmetric] slackDown_def by (simp add: str_def)
  ultimately show ?thesis
    by (intro conjI)
qed

section \<open>A commit without changes\<close>

text \<open>
  Claim C7, as amended. Let staging return, let the status that follows list no
  file, and let the status that \<open>getCurrentBranch\<close> then asks for return. Then
  \<open>commitChanges\<close>, on a service that holds a client, returns \<open>success\<close> with no hash and
  with the current branch (\<open>unknown\<close> when the status names none); its calls are the
  staging and the two status calls, so no commit is created. In a run that has got to
  STEP 5 and whose edit of that step returns, \<open>processIssue\<close> then goes on with STEP 6
  inside its \<open>try\<close> block, with that commit result: the job does not fail at the commit.
\<close>

theorem commit_without_changes:
  assumes "git_add w = Inr ()"
    and "git_status w InCommitChanges = Inr status"
    and "st_files status = []"
    and "git_status w InGetCurrentBranch = Inr status'"
  shows "(git s \<longrightarrow>
            commitChanges w message files s =
              (Inr (noChangeCommit status'),
               s\<lparr>trace := trace s
                    @ [if files = [] then GitAddAll else GitAdd files, GitStatus, GitStatus]\<rparr>))
       \<and> (reachesStep5 w job ts fixResult name \<and> edits w (Committing name) \<longrightarrow>
            processIssue w job s =
              tryCatch
                (step6 w job ts fixResult (determineBranchType (job_text job)) name
                   (noChangeCommit status'))
                (processIssueCatch w job)
                \<lparr>trace = trace s @ callsBeforeStep6 w job ts fixResult name, git = True,
                 statusMessageTs = Some ts, branchName = Some name\<rparr>)"
proof (intro conjI impI)
  assume "git s"
  with assms show "commitChanges w message files s =
              (Inr (noChangeCommit status'),
               s\<lparr>trace := trace s
                    @ [if files = [] then GitAddAll else GitAdd files, GitStatus, GitStatus]\<rparr>)"
    by (simp add: commitChanges_def getCurrentBranch_def action_defs noChangeCommit_def)
next
  assume reach: "reachesStep5 w job ts fixResult name \<and> edits w (Committing name)"
  have "returns (commitChanges w (commitMessageOf job fixResult) (fr_filesChanged fixResult))
          = Inr (noChangeCommit status')"
    using assms
    by (simp add: returns_def ready_def commitChanges_def getCurrentBranch_def action_defs
        noChangeCommit_def)
  with reach have "reachesStep6 w job ts fixResult name (noChangeCommit status')"
    by (simp add: reachesStep6_def noChangeCommit_def)
  from reach6 [OF this]
  show "processIssue w job s =
              tryCatch
                (step6 w job ts fixResult (determineBranchType (job_text job)) name
                   (noChangeCommit status'))
                (processIssueCatch w job)
                \<lparr>trace = trace s @ callsBeforeStep6 w job ts fixResult name, git = True,
                 statusMessageTs = Some ts, branchName = Some name\<rparr>"
    by (cases s) (simp add: processIssue_def await_def assign_def tryCatch_def)
qed

theorem commit_without_changes_witness:
  "commitChanges worldNothingToCommit (str ''message'') [str ''README.md''] ready =
     (Inr \<lparr>cr_success = True, cr_hash = None, cr_branch = Some (str ''fix/fix-the-typo''),
           cr_error = None\<rparr>,
      ready\<lparr>trace := [GitAdd [str ''README.md''], GitStatus, GitStatus]\<rparr>)
   \<and> processIssue worldNothingToCommit job0 ready =
       tryCatch
         (step6 worldNothingToCommit job0 (str ''100.2'') fix0
            (determineBranchType (job_text job0)) name0 (noChangeCommit statusClean))
         (processIssueCatch worldNothingToCommit job0)
         \<lparr>trace = callsBeforeStep6 worldNothingToCommit job0 (str ''100.2'') fix0 name0,
          git = True, statusMessageTs = Some (str ''100.2''), branchName = Some name0\<rparr>"
proof -
  have hyps: "git_add worldNothingToCommit = Inr ()"
    "git_status worldNothingToCommit InCommitChanges = Inr statusClean"
    "st_files statusClean = []"
    "git_status worldNothingToCommit InGetCurrentBranch = Inr statusClean"
    by (simp_all add: worldNothingToCommit_def world0_fields statusClean_def)
  have reach: "reachesStep5 worldNothingToCommit job0 (str ''100.2'') fix0 name0"
    "edits worldNothingToCommit (Committing name0)"
    by (simp_all add: reach_defs happy_evals worldNothingToCommit_def)
  have ready: "git ready" "trace ready = []"
    by (simp_all add: ready_def)
  from commit_without_changes [OF hyps, of ready "str ''message''" "[str ''README.md'']"
      job0 "str ''100.2''" fix0 name0] reach ready
  show ?thesis
    by (simp add: noChangeCommit_def statusClean_def orElse_def truthy_def)
qed

text \<open>
  When the status after staging lists no file and the status that \<open>getCurrentBranch\<close>
  asks for throws, \<open>commitChanges\<close> catches the exception and returns without
  success, and \<open>processIssue\<close> returns at the commit with status \<open>failed\<close>.
\<close>

lemma worldBranchUnreadable_commit:
  "returns (commitChanges worldBranchUnreadable message files) =
     Inr \<lparr>cr_success = False, cr_hash = None, cr_branch = None,
          cr_error = Some (str ''fatal: unable to read HEAD'')\<rparr>"
  by (simp add: returns_def ready_def commitChanges_def getCurrentBranch_def action_defs
      worldBranchUnreadable_def world0_fields statusClean_def)

lemma worldBranchUnreadable_fields:
  "chat_postMessage worldBranchUnreadable = chat_postMessage world0"
  "chat_update worldBranchUnreadable = chat_update world0"
  "fs_access worldBranchUnreadable = fs_access world0"
  "git_checkout worldBranchUnreadable = git_checkout world0"
  "git_pull worldBranchUnreadable = git_pull world0"
  "git_checkoutLocalBranch worldBranchUnreadable = git_checkoutLocalBranch world0"
  "analyzeAndFix worldBranchUnreadable = analyzeAndFix world0"
  by (simp_all add: worldBranchUnreadable_def)

theorem commit_without_changes_counterexample:
  "git_add worldBranchUnreadable = Inr ()
   \<and> git_status worldBranchUnreadable InCommitChanges = Inr statusClean
   \<and> st_files statusClean = []
   \<and> fst (commitChanges worldBranchUnreadable (str ''message'') [str ''README.md''] ready) =
       Inr \<lparr>cr_success = False, cr_hash = None, cr_branch = None,
            cr_error = Some (str ''fatal: unable to read HEAD'')\<rparr>
   \<and> fst (processIssue worldBranchUnreadable job0 ready) =
       Inr \<lparr>jr_jobId = job_id job0, jr_status = Failed, jr_branchName = None,
            jr_prUrl = None, jr_previewUrl = None, jr_result = Some fix0,
            jr_deployment = None, jr_error = Some (str ''fatal: unable to read HEAD'')\<rparr>"
proof -
  have "fst (commitChanges worldBranchUnreadable (str ''message'') [str ''README.md''] ready) =
       Inr \<lparr>cr_success = False, cr_hash = None, cr_branch = None,
            cr_error = Some (str ''fatal: unable to read HEAD'')\<rparr>"
    using worldBranchUnreadable_commit [of "str ''message''" "[str ''README.md'']"]
    by (simp add: returns_def)
  moreover have "fst (processIssue worldBranchUnreadable job0 ready) =
       Inr \<lparr>jr_jobId = job_id job0, jr_status = Failed, jr_branchName = None,
            jr_prUrl = None, jr_previewUrl = None, jr_result = Some fix0,
            jr_deployment = None, jr_error = Some (str ''fatal: unable to read HEAD'')\<rparr>"
    by (simp add: full_run worldBranchUnreadable_commit worldBranchUnreadable_fields)
  ultimately show ?thesis
    by (simp add: worldBranchUnreadable_def world0_fields statusClean_def)
qed

section \<open>What a commit stages\<close>

text \<open>
  Claim C8. \<open>commitChanges\<close>, called with a non-empty list of files on a service that
  holds a client, makes exactly one staging call, and it stages that list (on a
  service without a client it throws before it stages anything). It stages
  everything only when the list is empty. In every run of \<open>processIssue\<close> every
  staging call stages the list of changed files of the fix, which is not empty; none
  stages everything.
\<close>

theorem commitChanges_stages_listed_files:
  "(files \<noteq> [] \<longrightarrow>
      filter isStaging (newEvents s (snd (commitChanges w message files s)))
        = (if git s then [GitAdd files] else []))
   \<and> (GitAddAll \<in> set (newEvents s (snd (commitChanges w message files s))) \<longrightarrow> files = [])
   \<and> list_all (stagesFixOnly w) (newEvents s (snd (processIssue w job s)))"
proof (intro conjI impI)
  assume files: "files \<noteq> []"
  show "filter isStaging (newEvents s (snd (commitChanges w message files s)))
               = (if git s then [GitAdd files] else [])"
  proof (cases "git s")
    case True
    with files show ?thesis
      by (simp add: commitChanges_run newEvents_def commitChanges_staging)
  next
    case False
    then show ?thesis
      by (simp add: commitChanges_def reading_def throw_def newEvents_def)
  qed
next
  assume "GitAddAll \<in> set (newEvents s (snd (commitChanges w message files s)))"
  with emits_newEvents [OF commitChanges_stage_all, of files s w message]
  show "files = []"
    by (auto simp: list_all_iff)
next
  show "list_all (stagesFixOnly w) (newEvents s (snd (processIssue w job s)))"
    by (rule emits_newEvents) (rule processIssue_stages_fix_only)
qed

theorem commitChanges_stages_listed_files_witness:
  "filter isStaging
     (newEvents ready (snd (commitChanges world0 (str ''message'') [str ''README.md''] ready)))
     = [GitAdd [str ''README.md'']]
   \<and> GitAddAll \<notin> set (newEvents ready
                        (snd (commitChanges world0 (str ''message'') [str ''README.md''] ready)))
   \<and> list_all (stagesFixOnly world0) (newEvents ready (snd (processIssue world0 job0 ready)))"
  using commitChanges_stages_listed_files
    [of "[str ''README.md'']" ready world0 "str ''message''" job0]
  by (auto simp: ready_def)

end
